theory Spec2Isabelle
  imports Complex_Main "HOL-Library.Multiset"
begin

section \<open>Coin selection: \<^verbatim>\<open>UtxoManager.selectUTXOs\<close>\<close>

text \<open>
  Source: \<^verbatim>\<open>packages/kaspa-wasm-sdk/src/utxo/UtxoManager.ts\<close>, lines 183-216.
  A \<^verbatim>\<open>bigint\<close> is an unbounded integer, so amounts are \<open>int\<close>. The entry record keeps
  the fields of \<^verbatim>\<open>IUtxoEntry\<close> that the orchestration layer reads.
\<close>

record IUtxoEntry =
  address :: string
  outpointTransactionId :: string
  outpointIndex :: nat
  amount :: int
  blockDaaScore :: int
  isCoinbase :: bool

record Selection =
  selectedUtxos :: "IUtxoEntry list"
  totalAmount :: int
  change :: int

text \<open>
  Every \<^verbatim>\<open>throw new Error(...)\<close> of the modelled code is a constructor here.
  \<open>InsufficientFunds need have\<close> is
  \<^verbatim>\<open>Insufficient funds. Need ${totalNeeded}, have ${totalAmount}\<close>;
  \<open>EngineFailure\<close> is any rejection or exception of the external ledger engine (RPC
  node or WASM library), \<open>RangeError\<close> is what \<^verbatim>\<open>BigInt\<close> throws on a non-finite
  number, and \<open>FailedToConvert\<close> wraps the cause where the source catches and rethrows.
\<close>

datatype error =
    InsufficientFunds int int
  | SDKNotInitialized
  | NoWalletAvailable
  | CannotGetPrivateKey nat
  | NoUTXOsForSpending
  | NoUTXOsForEstimation
  | FailedToCreateTransaction
  | EngineFailure string
  | InvalidAmountMustBePositive
  | InvalidAmountFormat string
  | InvalidKASAmount string
  | WasmConversionReturnedNull string
  | FailedToConvert error
  | InvalidCustomFee string
  | AddressNotFoundInWallet string
  | InsufficientBalance int int
  | RangeError
  | NoAddressesAndNoWallet

text \<open>
  \<^verbatim>\<open>[...availableUtxos].sort((a, b) => Number(b.amount - a.amount))\<close>: the comparator
  is negative exactly when \<open>b.amount < a.amount\<close>, so the copy is ordered by amount,
  largest first; \<^verbatim>\<open>Array.prototype.sort\<close> is stable, and so is \<open>sort_key\<close>.
\<close>

definition sortedUtxos :: "IUtxoEntry list \<Rightarrow> IUtxoEntry list" where
  "sortedUtxos availableUtxos = sort_key (\<lambda>u. - amount u) availableUtxos"

text \<open>
  The \<^verbatim>\<open>for (const utxo of sortedUtxos)\<close> loop. The three accumulators are
  \<^verbatim>\<open>selectedUtxos\<close>, \<^verbatim>\<open>totalAmount\<close> and \<^verbatim>\<open>totalNeeded\<close>; the \<^verbatim>\<open>break\<close> is the
  branch that returns without recursing.
\<close>

fun selectLoop ::
  "IUtxoEntry list \<Rightarrow> int \<Rightarrow> IUtxoEntry list \<Rightarrow> int \<Rightarrow> int
     \<Rightarrow> IUtxoEntry list \<times> int \<times> int" where
  "selectLoop [] feePerUtxo sel tot need = (sel, tot, need)"
| "selectLoop (utxo # rest) feePerUtxo sel tot need =
     (let sel' = sel @ [utxo];
          tot' = tot + amount utxo;
          need' = need + feePerUtxo
      in if tot' \<ge> need' then (sel', tot', need')
         else selectLoop rest feePerUtxo sel' tot' need')"

text \<open>The third parameter is optional in the source and defaults to \<^verbatim>\<open>BigInt(1000)\<close>.\<close>

definition feePerUtxoOf :: "int option \<Rightarrow> int" where
  "feePerUtxoOf feePerUtxoArg = (case feePerUtxoArg of None \<Rightarrow> 1000 | Some f \<Rightarrow> f)"

definition selectUTXOs ::
  "IUtxoEntry list \<Rightarrow> int \<Rightarrow> int option \<Rightarrow> error + Selection" where
  "selectUTXOs availableUtxos targetAmount feePerUtxoArg =
     (let feePerUtxo = feePerUtxoOf feePerUtxoArg;
          (sel, tot, need) =
             selectLoop (sortedUtxos availableUtxos) feePerUtxo [] 0 targetAmount
      in if tot < need then Inl (InsufficientFunds need tot)
         else Inr \<lparr> selectedUtxos = sel, totalAmount = tot, change = tot - need \<rparr>)"

definition sumAmounts :: "IUtxoEntry list \<Rightarrow> int" where
  "sumAmounts us = sum_list (map amount us)"

text \<open>An entry with the given amount, for concrete runs.\<close>

definition utxoOf :: "int \<Rightarrow> IUtxoEntry" where
  "utxoOf a = \<lparr> address = ''kaspa:a'', outpointTransactionId = ''t'', outpointIndex = 0,
                amount = a, blockDaaScore = 0, isCoinbase = False \<rparr>"

subsection \<open>The same function on a store of arrays\<close>

text \<open>
  In the source the caller's array is shared by reference. To say what the call does to
  it, arrays live in a store (an array's reference is its index). \<^verbatim>\<open>[...availableUtxos]\<close>
  allocates the copy, \<^verbatim>\<open>.sort\<close> reorders that copy in place, and \<^verbatim>\<open>selectedUtxos\<close> is
  a second fresh array that \<^verbatim>\<open>push\<close> extends. The loop iterates the sorted copy, which it
  never writes, so it sees the entries as they were at loop entry.
\<close>

type_synonym heap = "IUtxoEntry list list"

definition alloc :: "heap \<Rightarrow> IUtxoEntry list \<Rightarrow> heap \<times> nat" where
  "alloc h xs = (h @ [xs], length h)"

fun pushLoop ::
  "heap \<Rightarrow> nat \<Rightarrow> IUtxoEntry list \<Rightarrow> int \<Rightarrow> int \<Rightarrow> int \<Rightarrow> heap \<times> int \<times> int" where
  "pushLoop h selRef [] feePerUtxo tot need = (h, tot, need)"
| "pushLoop h selRef (utxo # rest) feePerUtxo tot need =
     (let h' = h[selRef := h ! selRef @ [utxo]];
          tot' = tot + amount utxo;
          need' = need + feePerUtxo
      in if tot' \<ge> need' then (h', tot', need')
         else pushLoop h' selRef rest feePerUtxo tot' need')"

text \<open>
  The result is the store after the call and either the error or the triple
  (reference of \<^verbatim>\<open>selectedUtxos\<close>, \<^verbatim>\<open>totalAmount\<close>, \<^verbatim>\<open>change\<close>).
\<close>

definition selectUTXOs_heap ::
  "heap \<Rightarrow> nat \<Rightarrow> int \<Rightarrow> int option \<Rightarrow> heap \<times> (error + nat \<times> int \<times> int)" where
  "selectUTXOs_heap h availableRef targetAmount feePerUtxoArg =
     (let feePerUtxo = feePerUtxoOf feePerUtxoArg;
          (h1, copyRef) = alloc h (h ! availableRef);
          h2 = h1[copyRef := sort_key (\<lambda>u. - amount u) (h1 ! copyRef)];
          (h3, selRef) = alloc h2 [];
          (h4, tot, need) = pushLoop h3 selRef (h3 ! copyRef) feePerUtxo 0 targetAmount
      in if tot < need then (h4, Inl (InsufficientFunds need tot))
         else (h4, Inr (selRef, tot, tot - need)))"

section \<open>JavaScript strings and numbers\<close>

text \<open>
  A string is a list of characters, a character being a code unit below 256. Among
  these, the white space and line terminators that \<^verbatim>\<open>String.prototype.trim\<close> and
  \<^verbatim>\<open>parseFloat\<close> strip are tab, line feed, vertical tab, form feed, carriage return,
  space and the no-break space U+00A0; the others (U+FEFF, U+2028 and the rest) lie
  above 255, and strings holding such code units are outside the model.
\<close>

definition isWhiteSpace :: "char \<Rightarrow> bool" where
  "isWhiteSpace c \<longleftrightarrow>
     c \<in> {CHR '' '', CHR 0x09, CHR 0x0A, CHR 0x0B, CHR 0x0C, CHR 0x0D, CHR 0xA0}"

definition trim :: "string \<Rightarrow> string" where
  "trim s = rev (dropWhile isWhiteSpace (rev (dropWhile isWhiteSpace s)))"

text \<open>
  An optional string argument of a tool call: \<open>None\<close> is \<^verbatim>\<open>undefined\<close>. In a condition
  such a value counts as true unless it is \<^verbatim>\<open>undefined\<close> or the empty string.
\<close>

definition truthy :: "string option \<Rightarrow> bool" where
  "truthy v \<longleftrightarrow> (case v of None \<Rightarrow> False | Some s \<Rightarrow> s \<noteq> [])"

definition digits :: string where
  "digits = ''0123456789''"

definition isDigit :: "char \<Rightarrow> bool" where
  "isDigit c \<longleftrightarrow> c \<in> set digits"

text \<open>The value of a digit is its position in \<open>digits\<close>.\<close>

definition digitVal :: "char \<Rightarrow> nat" where
  "digitVal c = length (takeWhile (\<lambda>d. d \<noteq> c) digits)"

definition digitsValue :: "string \<Rightarrow> nat" where
  "digitsValue ds = foldl (\<lambda>acc c. 10 * acc + digitVal c) 0 ds"

text \<open>
  A JavaScript number as far as the modelled code looks at it: not-a-number, a finite
  value, or an infinity with its sign (\<open>True\<close> for negative).
\<close>

datatype jsnum = NaN | Fin rat | Infinity bool

definition isNaN :: "jsnum \<Rightarrow> bool" where
  "isNaN x \<longleftrightarrow> x = NaN"

text \<open>\<^verbatim>\<open>x < 0\<close>; false for \<^verbatim>\<open>NaN\<close> and for a zero of either sign.\<close>

definition ltZero :: "jsnum \<Rightarrow> bool" where
  "ltZero x \<longleftrightarrow> (case x of NaN \<Rightarrow> False | Fin v \<Rightarrow> v < 0 | Infinity neg \<Rightarrow> neg)"

definition parseExponent :: "string \<Rightarrow> int" where
  "parseExponent r =
     (case r of
        [] \<Rightarrow> 0
      | c # r1 \<Rightarrow>
          if c = CHR ''e'' \<or> c = CHR ''E'' then
            (let (neg, r2) = (case r1 of
                                [] \<Rightarrow> (False, r1)
                              | d # r3 \<Rightarrow> if d = CHR ''-'' then (True, r3)
                                          else if d = CHR ''+'' then (False, r3)
                                          else (False, r1));
                 ds = takeWhile isDigit r2
             in if ds = [] then 0
                else if neg then - int (digitsValue ds) else int (digitsValue ds))
          else 0)"

definition scale10 :: "rat \<Rightarrow> int \<Rightarrow> rat" where
  "scale10 m e = (if 0 \<le> e then m * 10 ^ nat e else m / 10 ^ nat (- e))"

text \<open>
  \<^verbatim>\<open>parseFloat\<close> skips leading white space and reads the longest prefix that is a
  decimal literal: an optional sign, then \<^verbatim>\<open>Infinity\<close>, or digits with an optional
  fraction and an optional exponent; with no such prefix the result is \<^verbatim>\<open>NaN\<close>. The
  value is kept exact, except that a magnitude of at most \<open>2^-1075\<close> becomes zero as it
  does in binary64; the code modelled here only asks whether the result is \<^verbatim>\<open>NaN\<close> and
  whether it is below zero, and both answers are those of the binary64 result.
\<close>

definition parseFloat :: "string \<Rightarrow> jsnum" where
  "parseFloat s =
     (let s1 = dropWhile isWhiteSpace s;
          (neg, s2) = (case s1 of
                         [] \<Rightarrow> (False, s1)
                       | c # r \<Rightarrow> if c = CHR ''-'' then (True, r)
                                  else if c = CHR ''+'' then (False, r)
                                  else (False, s1))
      in if take 8 s2 = ''Infinity'' then Infinity neg
         else
           (let ip = takeWhile isDigit s2;
                r1 = dropWhile isDigit s2;
                (fp, r2) = (case r1 of
                              [] \<Rightarrow> ([], r1)
                            | c # r \<Rightarrow> if c = CHR ''.''
                                       then (takeWhile isDigit r, dropWhile isDigit r)
                                       else ([], r1))
            in if ip = [] \<and> fp = [] then NaN
               else
                 (let m = scale10 (of_nat (digitsValue (ip @ fp)))
                            (parseExponent r2 - int (length fp));
                      v = (if \<bar>m\<bar> * 2 ^ 1075 \<le> 1 then 0 else m)
                  in Fin (if neg then - v else v))))"

text \<open>
  Rounding to binary64. \<open>bitLength a\<close> is the number of binary digits of a positive
  integer, and \<open>floorLog2 x\<close> is the exponent of the leading bit of a positive rational:
  \<open>2^(floorLog2 x) \<le> x < 2^(floorLog2 x + 1)\<close>.
\<close>

function bitLength :: "int \<Rightarrow> nat" where
  "bitLength a = (if a \<le> 0 then 0 else Suc (bitLength (a div 2)))"
  by pat_completeness auto
termination
  by (relation "measure nat") auto

declare bitLength.simps [simp del]

definition floorLog2 :: "rat \<Rightarrow> int" where
  "floorLog2 x =
     (if 1 \<le> x then int (bitLength \<lfloor>x\<rfloor>) - 1 else - int (bitLength (\<lceil>1 / x\<rceil> - 1)))"

text \<open>The nearest integer, a tie going to the even one.\<close>

definition roundHalfEven :: "rat \<Rightarrow> int" where
  "roundHalfEven q =
     (let n = \<lfloor>q\<rfloor>; r = q - of_int n
      in if 1 / 2 < r \<or> (r = 1 / 2 \<and> odd n) then n + 1 else n)"

text \<open>
  The binary64 value nearest to a rational, ties to even: the result has 53 significant
  bits, or fewer at the smallest exponent \<open>-1074\<close>, and a magnitude that rounds to
  \<open>2^1024\<close> or more becomes an infinity. The two zeros are not told apart; nothing in the
  modelled code does.
\<close>

definition toBinary64 :: "rat \<Rightarrow> jsnum" where
  "toBinary64 x =
     (if x = 0 then Fin 0
      else
        (let e = max (floorLog2 \<bar>x\<bar> - 52) (- 1074);
             n = roundHalfEven (\<bar>x\<bar> / 2 powi e);
             v = of_int n * 2 powi e
         in if 2 ^ 1024 \<le> v then Infinity (x < 0) else Fin (sgn x * v)))"

text \<open>
  A number that reaches the program from outside is held in binary64 from then on.
\<close>

definition asBinary64 :: "jsnum \<Rightarrow> jsnum" where
  "asBinary64 x = (case x of Fin v \<Rightarrow> toBinary64 v | _ \<Rightarrow> x)"

text \<open>A number in a condition: \<^verbatim>\<open>NaN\<close> and zero count as false.\<close>

definition numberTruthy :: "jsnum \<Rightarrow> bool" where
  "numberTruthy x \<longleftrightarrow> x \<noteq> NaN \<and> x \<noteq> Fin 0"

text \<open>\<^verbatim>\<open>Number(b)\<close> for a \<^verbatim>\<open>bigint\<close>: the nearest binary64 value.\<close>

definition Number :: "int \<Rightarrow> jsnum" where
  "Number b = toBinary64 (of_int b)"

text \<open>
  \<^verbatim>\<open>x * y\<close> on numbers: the exact product of two finite values, rounded; an infinity
  times zero is \<^verbatim>\<open>NaN\<close>.
\<close>

fun jsTimes :: "jsnum \<Rightarrow> jsnum \<Rightarrow> jsnum" where
  "jsTimes NaN y = NaN"
| "jsTimes x NaN = NaN"
| "jsTimes (Fin a) (Fin b) = toBinary64 (a * b)"
| "jsTimes (Fin a) (Infinity neg) = (if a = 0 then NaN else Infinity (neg \<noteq> (a < 0)))"
| "jsTimes (Infinity neg) (Fin b) = (if b = 0 then NaN else Infinity (neg \<noteq> (b < 0)))"
| "jsTimes (Infinity neg) (Infinity neg') = Infinity (neg \<noteq> neg')"

text \<open>\<^verbatim>\<open>Math.max(x, y)\<close>: \<^verbatim>\<open>NaN\<close> if either is, else the larger.\<close>

definition Math_max :: "jsnum \<Rightarrow> jsnum \<Rightarrow> jsnum" where
  "Math_max x y =
     (case (x, y) of
        (NaN, _) \<Rightarrow> NaN
      | (_, NaN) \<Rightarrow> NaN
      | (Infinity neg, _) \<Rightarrow> (if neg then y else x)
      | (_, Infinity neg) \<Rightarrow> (if neg then x else y)
      | (Fin a, Fin b) \<Rightarrow> Fin (max a b))"

definition Math_ceil :: "jsnum \<Rightarrow> jsnum" where
  "Math_ceil x = (case x of Fin v \<Rightarrow> Fin (of_int \<lceil>v\<rceil>) | _ \<Rightarrow> x)"

text \<open>\<^verbatim>\<open>BigInt(x)\<close> of a number: a \<^verbatim>\<open>RangeError\<close> unless \<open>x\<close> is an integer.\<close>

definition BigInt :: "jsnum \<Rightarrow> error + int" where
  "BigInt x =
     (case x of
        Fin v \<Rightarrow> if of_int \<lfloor>v\<rfloor> = v then Inr \<lfloor>v\<rfloor> else Inl RangeError
      | _ \<Rightarrow> Inl RangeError)"

section \<open>Session identifiers\<close>

text \<open>
  \<^verbatim>\<open>src/index.ts\<close>, lines 30-34:
  \<^verbatim>\<open>return sessionId && sessionId.trim() ? sessionId.trim() : 'default'\<close>.
\<close>

definition normalizeSessionId :: "string option \<Rightarrow> string" where
  "normalizeSessionId sessionId =
     (case sessionId of
        None \<Rightarrow> ''default''
      | Some s \<Rightarrow> if s \<noteq> [] \<and> trim s \<noteq> [] then trim s else ''default'')"

text \<open>
  The other way the handlers obtain the key: the destructuring default
  \<^verbatim>\<open>const { sessionId = 'default' } = args\<close>, which replaces \<^verbatim>\<open>undefined\<close> only.
\<close>

definition defaultSessionId :: "string option \<Rightarrow> string" where
  "defaultSessionId sessionId = (case sessionId of None \<Rightarrow> ''default'' | Some s \<Rightarrow> s)"

text \<open>
  The tools that carry a \<^verbatim>\<open>sessionId\<close>, and the key under which each handler looks the
  session up in \<^verbatim>\<open>sdkInstances\<close>, \<^verbatim>\<open>walletInstances\<close> and \<^verbatim>\<open>subscriptionInstances\<close>
  (lines 496, 597, 670, 710, 897, 955, 1084, 1143, 1283, 1375, 1458, 1555, 1655).
\<close>

datatype tool =
    kaspa_connect
  | kaspa_create_wallet
  | kaspa_get_balance
  | kaspa_send_transaction
  | kaspa_estimate_fee
  | kaspa_get_fee_recommendations
  | kaspa_get_wallet_info
  | kaspa_send_from_wallet
  | kaspa_subscribe_balance
  | kaspa_unsubscribe_balance
  | kaspa_get_subscription_status
  | kaspa_get_transaction_details
  | kaspa_setup_preconfigured_wallet

fun sessionKey :: "tool \<Rightarrow> string option \<Rightarrow> string" where
  "sessionKey kaspa_connect sid = defaultSessionId sid"
| "sessionKey kaspa_create_wallet sid = normalizeSessionId sid"
| "sessionKey kaspa_get_balance sid = defaultSessionId sid"
| "sessionKey kaspa_send_transaction sid = normalizeSessionId sid"
| "sessionKey kaspa_estimate_fee sid = defaultSessionId sid"
| "sessionKey kaspa_get_fee_recommendations sid = defaultSessionId sid"
| "sessionKey kaspa_get_wallet_info sid = normalizeSessionId sid"
| "sessionKey kaspa_send_from_wallet sid = normalizeSessionId sid"
| "sessionKey kaspa_subscribe_balance sid = defaultSessionId sid"
| "sessionKey kaspa_unsubscribe_balance sid = defaultSessionId sid"
| "sessionKey kaspa_get_subscription_status sid = defaultSessionId sid"
| "sessionKey kaspa_get_transaction_details sid = defaultSessionId sid"
| "sessionKey kaspa_setup_preconfigured_wallet sid = normalizeSessionId sid"

section \<open>The ledger engine and the order of its calls\<close>

text \<open>
  The RPC node and the WASM library are outside the repository. Each interaction with
  them is logged, in order, so that "no network call was made" is a statement about the
  log. \<open>CreateTransactions p\<close> is the generator call with priority fee \<open>p\<close>.
\<close>

datatype call =
    DeriveReceiveKey nat
  | GetUtxosByAddresses string
  | GetBalanceByAddress string
  | GetFeeEstimate
  | CreateTransaction
  | CreateTransactions int
  | SignTransaction
  | SubmitTransaction string
  | SubscribeUtxosChanged "string list"
  | UnsubscribeUtxosChanged "string list"

definition isNetworkCall :: "call \<Rightarrow> bool" where
  "isNetworkCall c \<longleftrightarrow>
     (case c of
        GetUtxosByAddresses a \<Rightarrow> True
      | GetBalanceByAddress a \<Rightarrow> True
      | GetFeeEstimate \<Rightarrow> True
      | SubmitTransaction i \<Rightarrow> True
      | SubscribeUtxosChanged as \<Rightarrow> True
      | UnsubscribeUtxosChanged as \<Rightarrow> True
      | _ \<Rightarrow> False)"

text \<open>
  A computation that may call the engine takes the log so far and returns the extended
  log with either the thrown error or the value. The engine's answers may depend on
  everything that happened before, so they are functions of the log.
\<close>

type_synonym 'a io = "call list \<Rightarrow> call list \<times> (error + 'a)"

definition succeed :: "'a \<Rightarrow> 'a io" where
  "succeed x t = (t, Inr x)"

definition raise :: "error \<Rightarrow> 'a io" where
  "raise e t = (t, Inl e)"

definition lift :: "error + 'a \<Rightarrow> 'a io" where
  "lift r t = (t, r)"

definition andThen :: "'a io \<Rightarrow> ('a \<Rightarrow> 'b io) \<Rightarrow> 'b io" where
  "andThen m f t = (case m t of (t', Inl e) \<Rightarrow> (t', Inl e) | (t', Inr x) \<Rightarrow> f x t')"

definition engineCall :: "call \<Rightarrow> (call list \<Rightarrow> error + 'a) \<Rightarrow> 'a io" where
  "engineCall c answer t = (t @ [c], answer t)"

text \<open>\<^verbatim>\<open>try { m } catch (error) { throw new Error(... error.message ...) }\<close>\<close>

definition rethrow :: "(error \<Rightarrow> error) \<Rightarrow> 'a io \<Rightarrow> 'a io" where
  "rethrow w m t = (case m t of (t', Inl e) \<Rightarrow> (t', Inl (w e)) | (t', Inr x) \<Rightarrow> (t', Inr x))"

text \<open>
  A private key, with the address it yields on each network
  (\<^verbatim>\<open>privKey.toAddress(network).toString()\<close>).
\<close>

datatype privateKey = PrivateKey (keyHex: string) (toAddress: "string \<Rightarrow> string")

text \<open>
  \<^verbatim>\<open>KaspaWallet\<close>: an HD wallet derives keys by index through the engine's key
  generator; a wallet imported from one private key has index 0 only.
\<close>

datatype wallet =
    HDWallet "nat \<Rightarrow> error + privateKey"
  | SingleKeyWallet privateKey
  | UninitializedWallet

definition getReceivePrivateKey :: "wallet \<Rightarrow> nat \<Rightarrow> privateKey io" where
  "getReceivePrivateKey w index =
     engineCall (DeriveReceiveKey index)
       (\<lambda>t. case w of
               HDWallet receiveKey \<Rightarrow> receiveKey index
             | SingleKeyWallet k \<Rightarrow> if index = 0 then Inr k else Inl (CannotGetPrivateKey index)
             | UninitializedWallet \<Rightarrow> Inl (CannotGetPrivateKey index))"

text \<open>
  A (pending or signed) transaction as the generator returns it: its id, the entries it
  spends and the values of its outputs, change included.
\<close>

record Transaction =
  txid :: string
  inputs :: "IUtxoEntry list"
  outputs :: "int list"

text \<open>
  The answer to \<^verbatim>\<open>getFeeEstimate\<close>: the fee rate of the priority bucket, if present, and
  the fee rates of the normal and low buckets, as the node states them.
\<close>

record FeeEstimateResponse =
  priorityBucket :: "jsnum option"
  normalBuckets :: "jsnum list"
  lowBuckets :: "jsnum list"

record FeeEstimate =
  baseFee :: int
  massLimit :: int
  estimatedMass :: int
  totalFee :: int

record SendTransactionResult =
  transactionId :: string
  fee :: int
  mass :: int

text \<open>
  One \<^verbatim>\<open>KaspaSDK\<close> instance: whether \<^verbatim>\<open>rpcClient\<close> is set, its wallet, its network and
  the engine behind it. \<open>createTransactions\<close> is \<^verbatim>\<open>kaspa.createTransactions\<close>, which
  selects entries by itself and may return several transactions.
\<close>

record KaspaSDK =
  rpcClient :: bool
  sdkWallet :: "wallet option"
  networkType :: string
  getUtxosByAddresses :: "call list \<Rightarrow> string \<Rightarrow> error + IUtxoEntry list"
  getBalanceByAddress :: "call list \<Rightarrow> string \<Rightarrow> error + int"
  getFeeEstimate :: "call list \<Rightarrow> error + FeeEstimateResponse option"
  createTransaction :: "call list \<Rightarrow> IUtxoEntry list \<Rightarrow> string \<Rightarrow> int \<Rightarrow> error + Transaction"
  calculateTransactionMass :: "Transaction \<Rightarrow> int"
  createTransactions ::
    "call list \<Rightarrow> IUtxoEntry list \<Rightarrow> string \<Rightarrow> int \<Rightarrow> string \<Rightarrow> int \<Rightarrow> string option
       \<Rightarrow> error + Transaction list"
  signTransaction :: "call list \<Rightarrow> Transaction \<Rightarrow> privateKey \<Rightarrow> error + Transaction"
  submitTransaction :: "call list \<Rightarrow> Transaction \<Rightarrow> error + string"

section \<open>Amount conversion: \<^verbatim>\<open>kasToSompi\<close>\<close>

text \<open>
  \<^verbatim>\<open>packages/kaspa-wasm-sdk/src/utils/index.ts\<close>, lines 24-45, for a string argument.
  The WASM function \<^verbatim>\<open>kaspa.kaspaToSompi\<close> is a parameter; \<open>None\<close> is its
  \<^verbatim>\<open>undefined\<close>.
\<close>

definition kasToSompi :: "(string \<Rightarrow> int option) \<Rightarrow> string \<Rightarrow> error + int" where
  "kasToSompi kaspaToSompi kas =
     (let kasStr = trim kas;
          kasNum = parseFloat kasStr
      in if isNaN kasNum \<or> ltZero kasNum then Inl (InvalidKASAmount kas)
         else
           (let kasStr' = (if CHR ''.'' \<in> set kasStr then kasStr else kasStr @ ''.0'')
            in case kaspaToSompi kasStr' of
                 None \<Rightarrow> Inl (WasmConversionReturnedNull kasStr')
               | Some sompi \<Rightarrow> Inr sompi))"

text \<open>
  For concrete runs: a decimal string with at most eight fraction digits, in units of
  \<open>10^-8\<close>, and \<^verbatim>\<open>undefined\<close> for anything else. It stands for the WASM function only
  where an example needs one.
\<close>

definition decimalToSompi :: "string \<Rightarrow> int option" where
  "decimalToSompi s =
     (let ip = takeWhile isDigit s; r = dropWhile isDigit s
      in if ip = [] then None
         else (case r of
                 [] \<Rightarrow> Some (int (digitsValue ip) * 100000000)
               | c # fp \<Rightarrow>
                   if c = CHR ''.'' \<and> list_all isDigit fp \<and> length fp \<le> 8
                   then Some (int (digitsValue ip) * 100000000
                              + int (digitsValue fp) * 10 ^ (8 - length fp))
                   else None))"

section \<open>Fee estimate and send: \<^verbatim>\<open>KaspaSDK.ts\<close>\<close>

text \<open>
  \<^verbatim>\<open>estimateFee\<close>, lines 908-974. The fee rate is that of the first bucket whose rate
  counts as true, else 1. \<open>baseFee\<close> is \<^verbatim>\<open>BigInt(Math.ceil(feerate * Number(mass)))\<close>,
  computed in binary64; \<^verbatim>\<open>BigInt\<close> throws where the product is not finite.
\<close>

definition selectFeerate :: "FeeEstimateResponse option \<Rightarrow> jsnum" where
  "selectFeerate response =
     (let feerate =
            (case response of
               None \<Rightarrow> Fin 0
             | Some estimate \<Rightarrow>
                 if priorityBucket estimate \<noteq> None
                    \<and> numberTruthy (asBinary64 (the (priorityBucket estimate)))
                 then asBinary64 (the (priorityBucket estimate))
                 else if normalBuckets estimate \<noteq> []
                    \<and> numberTruthy (asBinary64 (hd (normalBuckets estimate)))
                 then asBinary64 (hd (normalBuckets estimate))
                 else if lowBuckets estimate \<noteq> []
                    \<and> numberTruthy (asBinary64 (hd (lowBuckets estimate)))
                 then asBinary64 (hd (lowBuckets estimate))
                 else Fin 0)
      in if \<not> numberTruthy feerate then Fin 1 else feerate)"

definition estimateFee :: "KaspaSDK \<Rightarrow> string \<Rightarrow> string \<Rightarrow> int \<Rightarrow> FeeEstimate io" where
  "estimateFee sdk sender recipient amt =
     (if \<not> rpcClient sdk then raise SDKNotInitialized
      else
        andThen (engineCall (GetUtxosByAddresses sender) (\<lambda>t. getUtxosByAddresses sdk t sender))
          (\<lambda>utxos.
        if utxos = [] then raise NoUTXOsForEstimation
        else
          andThen (engineCall GetFeeEstimate (getFeeEstimate sdk)) (\<lambda>feeEstimateResponse.
          andThen (engineCall CreateTransaction (\<lambda>t. createTransaction sdk t utxos recipient amt))
            (\<lambda>transaction.
          let feerate = selectFeerate feeEstimateResponse;
              m = calculateTransactionMass sdk transaction
          in andThen (lift (BigInt (Math_ceil (jsTimes feerate (Number m))))) (\<lambda>b.
             succeed \<lparr> baseFee = b, massLimit = 100000, estimatedMass = m, totalFee = b \<rparr>)))))"

text \<open>
  \<^verbatim>\<open>TransactionConfig\<close>. \<^verbatim>\<open>from\<close> is an address string or a private key.
\<close>

datatype sender = FromAddress string | FromKey privateKey

record TransactionConfig =
  cfg_from :: sender
  cfg_to :: string
  cfg_amount :: int
  cfg_priorityFee :: "int option"
  cfg_customTotalFee :: "int option"
  cfg_payload :: "string option"
  cfg_changeAddress :: "string option"

definition senderKey :: "KaspaSDK \<Rightarrow> sender \<Rightarrow> privateKey io" where
  "senderKey sdk sndr =
     (case sndr of
        FromAddress a \<Rightarrow>
          (case sdkWallet sdk of
             None \<Rightarrow> raise NoWalletAvailable
           | Some w \<Rightarrow> getReceivePrivateKey w 0)
      | FromKey k \<Rightarrow> succeed k)"

text \<open>
  The tail shared by both send functions (lines 754-791 and 855-902): build with the
  generator, take the first transaction, sign, submit, and report
  \<^verbatim>\<open>utxos.reduce(...) - signedTx.outputs.reduce(...)\<close> as the fee, \<open>utxos\<close> being every
  entry fetched for the sender.
\<close>

definition buildSignSubmit ::
  "KaspaSDK \<Rightarrow> TransactionConfig \<Rightarrow> privateKey \<Rightarrow> string \<Rightarrow> IUtxoEntry list \<Rightarrow> int
     \<Rightarrow> SendTransactionResult io" where
  "buildSignSubmit sdk config senderPrivateKey senderAddress utxos priorityFee =
     (let changeAddress = (case cfg_changeAddress config of Some a \<Rightarrow> a | None \<Rightarrow> senderAddress)
      in
        andThen (engineCall (CreateTransactions priorityFee)
                   (\<lambda>t. createTransactions sdk t utxos (cfg_to config) (cfg_amount config)
                          changeAddress priorityFee (cfg_payload config)))
          (\<lambda>pendingTransactions.
        case pendingTransactions of
          [] \<Rightarrow> raise FailedToCreateTransaction
        | pendingTx # others \<Rightarrow>
            andThen (engineCall SignTransaction (\<lambda>t. signTransaction sdk t pendingTx senderPrivateKey))
              (\<lambda>signedTx.
            andThen (engineCall (SubmitTransaction (txid signedTx))
                       (\<lambda>t. submitTransaction sdk t signedTx))
              (\<lambda>submitted.
            let totalInputAmount = sumAmounts utxos;
                actualOutputAmount = sum_list (outputs signedTx)
            in succeed \<lparr> transactionId = txid signedTx,
                         fee = totalInputAmount - actualOutputAmount,
                         mass = calculateTransactionMass sdk signedTx \<rparr>))))"

text \<open>\<^verbatim>\<open>sendTransactionWithCustomFee\<close>, lines 693-792.\<close>

definition sendTransactionWithCustomFee ::
  "KaspaSDK \<Rightarrow> TransactionConfig \<Rightarrow> int \<Rightarrow> SendTransactionResult io" where
  "sendTransactionWithCustomFee sdk config customTotalFee =
     (if \<not> rpcClient sdk then raise SDKNotInitialized
      else
        andThen (senderKey sdk (cfg_from config)) (\<lambda>senderPrivateKey.
        let senderAddress = toAddress senderPrivateKey (networkType sdk)
        in
          andThen (engineCall (GetUtxosByAddresses senderAddress)
                     (\<lambda>t. getUtxosByAddresses sdk t senderAddress))
            (\<lambda>utxos.
          if utxos = [] then raise NoUTXOsForSpending
          else
            andThen (estimateFee sdk senderAddress (cfg_to config) (cfg_amount config))
              (\<lambda>baseFeeEstimate.
            let priorityFee =
                  (if customTotalFee > baseFee baseFeeEstimate
                   then customTotalFee - baseFee baseFeeEstimate
                   else 0)
            in buildSignSubmit sdk config senderPrivateKey senderAddress utxos priorityFee))))"

text \<open>
  \<^verbatim>\<open>sendTransaction\<close>, lines 797-903. \<^verbatim>\<open>config.priorityFee || BigInt(0)\<close> is zero for a
  missing fee.
\<close>

definition sendTransaction :: "KaspaSDK \<Rightarrow> TransactionConfig \<Rightarrow> SendTransactionResult io" where
  "sendTransaction sdk config =
     (case cfg_customTotalFee config of
        Some customTotalFee \<Rightarrow> sendTransactionWithCustomFee sdk config customTotalFee
      | None \<Rightarrow>
          if \<not> rpcClient sdk then raise SDKNotInitialized
          else
            andThen (senderKey sdk (cfg_from config)) (\<lambda>senderPrivateKey.
            let senderAddress = toAddress senderPrivateKey (networkType sdk)
            in
              andThen (engineCall (GetUtxosByAddresses senderAddress)
                         (\<lambda>t. getUtxosByAddresses sdk t senderAddress))
                (\<lambda>utxos.
              if utxos = [] then raise NoUTXOsForSpending
              else buildSignSubmit sdk config senderPrivateKey senderAddress utxos
                     (case cfg_priorityFee config of None \<Rightarrow> 0 | Some p \<Rightarrow> p))))"

text \<open>
  \<^verbatim>\<open>getBalance\<close> (lines 673-678, and \<^verbatim>\<open>RpcClient.getBalance\<close>): the balance call, then
  a UTXO query for the count.
\<close>

definition getBalance :: "KaspaSDK \<Rightarrow> string \<Rightarrow> int io" where
  "getBalance sdk addr =
     (if \<not> rpcClient sdk then raise SDKNotInitialized
      else
        andThen (engineCall (GetBalanceByAddress addr) (\<lambda>t. getBalanceByAddress sdk t addr))
          (\<lambda>balance.
        andThen (engineCall (GetUtxosByAddresses addr) (\<lambda>t. getUtxosByAddresses sdk t addr))
          (\<lambda>entries. succeed balance)))"

section \<open>The send handlers of the server: \<^verbatim>\<open>src/index.ts\<close>\<close>

text \<open>
  What a handler throws: \<^verbatim>\<open>McpError(ErrorCode.InvalidRequest, ...)\<close> before its
  \<^verbatim>\<open>try\<close> block, and \<^verbatim>\<open>McpError(ErrorCode.InternalError, prefix + cause)\<close> from its
  \<^verbatim>\<open>catch\<close>.
\<close>

datatype mcpError = InvalidRequest string | InternalError string error

type_synonym 'a handled = "call list \<times> (mcpError + 'a)"

definition catchAll :: "string \<Rightarrow> 'a io \<Rightarrow> call list \<Rightarrow> 'a handled" where
  "catchAll prefix m t =
     (case m t of (t', Inl e) \<Rightarrow> (t', Inl (InternalError prefix e)) | (t', Inr x) \<Rightarrow> (t', Inr x))"

record SendArgs =
  arg_sessionId :: "string option"
  arg_from :: "string option"
  arg_to :: string
  arg_amount :: "string option"
  arg_feePriority :: "string option"
  arg_customFee :: "string option"
  arg_priorityFee :: "string option"
  arg_payload :: "string option"
  arg_addressIndex :: "nat option"

text \<open>
  Lines 732-741 (and 1165-1174): \<^verbatim>\<open>!amount || amount === '0'\<close>, then
  \<^verbatim>\<open>isNaN(parseFloat(amountStr))\<close> on the trimmed string.
\<close>

definition validateAmount :: "string option \<Rightarrow> error + string" where
  "validateAmount amt =
     (if \<not> truthy amt \<or> amt = Some ''0'' then Inl InvalidAmountMustBePositive
      else
        (let amountStr = trim (the amt)
         in if isNaN (parseFloat amountStr) then Inl (InvalidAmountFormat amountStr)
            else Inr amountStr))"

text \<open>Lines 799-814 (and 1218-1233).\<close>

definition feeMultiplier :: "string \<Rightarrow> rat" where
  "feeMultiplier feePriority =
     (if feePriority = ''low'' then 1 / 2
      else if feePriority = ''normal'' then 1
      else if feePriority = ''high'' then 2
      else 1)"

text \<open>\<^verbatim>\<open>BigInt(Math.ceil(Number(feeEstimate.baseFee) * feeMultiplier))\<close>\<close>

definition priorityFeeForTier :: "string \<Rightarrow> int \<Rightarrow> error + int" where
  "priorityFeeForTier feePriority b =
     BigInt (Math_ceil (jsTimes (Number b) (Fin (feeMultiplier feePriority))))"

text \<open>Lines 759-771 (and 1197-1209): the custom fee string.\<close>

definition customFeeSompi :: "(string \<Rightarrow> int option) \<Rightarrow> string \<Rightarrow> error + int" where
  "customFeeSompi kaspaToSompi customFee =
     (let customFeeStr = trim customFee
      in if isNaN (parseFloat customFeeStr) \<or> ltZero (parseFloat customFeeStr)
         then Inl (InvalidCustomFee customFeeStr)
         else (case kasToSompi kaspaToSompi customFeeStr of
                 Inl e \<Rightarrow> Inl (FailedToConvert e)
               | Inr v \<Rightarrow> Inr v))"

text \<open>
  Lines 824-852: with a \<^verbatim>\<open>from\<close> address, the first ten receive keys are tried in
  order; a derivation that throws ends the search.
\<close>

fun findSenderKey :: "wallet \<Rightarrow> string \<Rightarrow> string \<Rightarrow> nat \<Rightarrow> nat \<Rightarrow> privateKey option io" where
  "findSenderKey w network sender i 0 = succeed None"
| "findSenderKey w network sender i (Suc n) =
     (\<lambda>t. case getReceivePrivateKey w i t of
            (t', Inl e) \<Rightarrow> (t', Inr None)
          | (t', Inr privKey) \<Rightarrow>
              if toAddress privKey network = sender then (t', Inr (Some privKey))
              else findSenderKey w network sender (Suc i) n t')"

definition feePriorityOf :: "SendArgs \<Rightarrow> string" where
  "feePriorityOf args = (case arg_feePriority args of None \<Rightarrow> ''normal'' | Some p \<Rightarrow> p)"

text \<open>Lines 756-816: the fee the handler will ask for.\<close>

definition sendTransactionFee ::
  "KaspaSDK \<Rightarrow> wallet \<Rightarrow> (string \<Rightarrow> int option) \<Rightarrow> SendArgs \<Rightarrow> int \<Rightarrow> int io" where
  "sendTransactionFee sdk w kaspaToSompi args amountSompi =
     (if truthy (arg_customFee args)
      then lift (customFeeSompi kaspaToSompi (the (arg_customFee args)))
      else if truthy (arg_priorityFee args) \<and> arg_priorityFee args \<noteq> Some ''0''
      then lift (case kasToSompi kaspaToSompi (trim (the (arg_priorityFee args))) of
                   Inl e \<Rightarrow> Inl (FailedToConvert e)
                 | Inr v \<Rightarrow> Inr v)
      else
        andThen (if truthy (arg_from args) then succeed (the (arg_from args))
                 else andThen (getReceivePrivateKey w 0)
                        (\<lambda>privKey. succeed (toAddress privKey (networkType sdk))))
          (\<lambda>senderAddress.
        andThen (estimateFee sdk senderAddress (arg_to args) amountSompi) (\<lambda>feeEstimate.
        lift (priorityFeeForTier (feePriorityOf args) (baseFee feeEstimate)))))"

text \<open>Lines 856-863 (and 1244-1251): the request handed to the SDK.\<close>

definition sendConfig :: "SendArgs \<Rightarrow> privateKey \<Rightarrow> int \<Rightarrow> int \<Rightarrow> TransactionConfig" where
  "sendConfig args senderPrivateKey amountSompi priorityFeeSompi =
     \<lparr> cfg_from = FromKey senderPrivateKey,
       cfg_to = arg_to args,
       cfg_amount = amountSompi,
       cfg_priorityFee = (if truthy (arg_customFee args) then None else Some priorityFeeSompi),
       cfg_customTotalFee = (if truthy (arg_customFee args) then Some priorityFeeSompi else None),
       cfg_payload = arg_payload args,
       cfg_changeAddress = None \<rparr>"

text \<open>
  \<^verbatim>\<open>handleSendTransaction\<close>, lines 699-894. The two maps are \<^verbatim>\<open>sdkInstances\<close> and
  \<^verbatim>\<open>walletInstances\<close>.
\<close>

definition handleSendTransaction ::
  "(string \<rightharpoonup> KaspaSDK) \<Rightarrow> (string \<rightharpoonup> wallet) \<Rightarrow> (string \<Rightarrow> int option) \<Rightarrow> SendArgs
     \<Rightarrow> call list \<Rightarrow> SendTransactionResult handled" where
  "handleSendTransaction sdkInstances walletInstances kaspaToSompi args t =
     (let sessionId = normalizeSessionId (arg_sessionId args)
      in case sdkInstances sessionId of
           None \<Rightarrow> (t, Inl (InvalidRequest ''No active connection. Please connect first.''))
         | Some sdk \<Rightarrow>
        (case walletInstances sessionId of
           None \<Rightarrow> (t, Inl (InvalidRequest
                     ''No wallet available. Please create or import a wallet first.''))
         | Some w \<Rightarrow>
             catchAll ''Failed to send transaction''
               (andThen (lift (validateAmount (arg_amount args))) (\<lambda>amountStr.
                andThen (rethrow FailedToConvert (lift (kasToSompi kaspaToSompi amountStr)))
                  (\<lambda>amountSompi.
                andThen (sendTransactionFee sdk w kaspaToSompi args amountSompi)
                  (\<lambda>priorityFeeSompi.
                andThen (if truthy (arg_from args)
                         then andThen (findSenderKey w (networkType sdk) (the (arg_from args)) 0 10)
                                (\<lambda>found. case found of
                                           None \<Rightarrow> raise (AddressNotFoundInWallet (the (arg_from args)))
                                         | Some privKey \<Rightarrow> succeed privKey)
                         else getReceivePrivateKey w 0)
                  (\<lambda>senderPrivateKey.
                sendTransaction sdk
                  (sendConfig args senderPrivateKey amountSompi priorityFeeSompi))))))
               t))"

text \<open>
  \<^verbatim>\<open>handleSendFromWallet\<close>, lines 1140-1280: the key comes from \<^verbatim>\<open>addressIndex\<close>,
  there is no legacy priority fee, and the balance is checked before sending.
\<close>

definition sendFromWalletFee ::
  "KaspaSDK \<Rightarrow> (string \<Rightarrow> int option) \<Rightarrow> SendArgs \<Rightarrow> string \<Rightarrow> int \<Rightarrow> int io" where
  "sendFromWalletFee sdk kaspaToSompi args senderAddress amountSompi =
     (if truthy (arg_customFee args)
      then lift (customFeeSompi kaspaToSompi (the (arg_customFee args)))
      else
        andThen (estimateFee sdk senderAddress (arg_to args) amountSompi) (\<lambda>feeEstimate.
        lift (priorityFeeForTier (feePriorityOf args) (baseFee feeEstimate))))"

definition handleSendFromWallet ::
  "(string \<rightharpoonup> KaspaSDK) \<Rightarrow> (string \<rightharpoonup> wallet) \<Rightarrow> (string \<Rightarrow> int option) \<Rightarrow> SendArgs
     \<Rightarrow> call list \<Rightarrow> SendTransactionResult handled" where
  "handleSendFromWallet sdkInstances walletInstances kaspaToSompi args t =
     (let sessionId = normalizeSessionId (arg_sessionId args)
      in case sdkInstances sessionId of
           None \<Rightarrow> (t, Inl (InvalidRequest ''No active connection. Please connect first.''))
         | Some sdk \<Rightarrow>
        (case walletInstances sessionId of
           None \<Rightarrow> (t, Inl (InvalidRequest
                     ''No wallet available. Please create or import a wallet first.''))
         | Some w \<Rightarrow>
             catchAll ''Failed to send from wallet''
               (andThen (lift (validateAmount (arg_amount args))) (\<lambda>amountStr.
                andThen (rethrow FailedToConvert (lift (kasToSompi kaspaToSompi amountStr)))
                  (\<lambda>amountSompi.
                andThen (getReceivePrivateKey w
                           (case arg_addressIndex args of None \<Rightarrow> 0 | Some i \<Rightarrow> i))
                  (\<lambda>senderPrivateKey.
                let senderAddress = toAddress senderPrivateKey (networkType sdk)
                in
                  andThen (sendFromWalletFee sdk kaspaToSompi args senderAddress amountSompi)
                    (\<lambda>priorityFeeSompi.
                  andThen (getBalance sdk senderAddress) (\<lambda>balance.
                  if balance < amountSompi + priorityFeeSompi
                  then raise (InsufficientBalance balance (amountSompi + priorityFeeSompi))
                  else sendTransaction sdk
                         (sendConfig args senderPrivateKey amountSompi priorityFeeSompi)))))))
               t))"

text \<open>
  \<^verbatim>\<open>handleGetFeeRecommendations\<close>, lines 954-1030: the fees the server quotes for the
  three tiers, and the least fee it names. The key of the session is the destructuring
  default; \<^verbatim>\<open>from\<close> is a required argument of the tool.
\<close>

record RecommendArgs =
  rec_sessionId :: "string option"
  rec_from :: string
  rec_to :: string
  rec_amount :: "string option"

record FeeRecommendations =
  lowFee :: int
  normalFee :: int
  highFee :: int
  minimumFee :: int

definition handleGetFeeRecommendations ::
  "(string \<rightharpoonup> KaspaSDK) \<Rightarrow> (string \<Rightarrow> int option) \<Rightarrow> RecommendArgs
     \<Rightarrow> call list \<Rightarrow> FeeRecommendations handled" where
  "handleGetFeeRecommendations sdkInstances kaspaToSompi args t =
     (case sdkInstances (defaultSessionId (rec_sessionId args)) of
        None \<Rightarrow> (t, Inl (InvalidRequest ''No active connection. Please connect first.''))
      | Some sdk \<Rightarrow>
          catchAll ''Failed to get fee recommendations''
            (andThen (lift (validateAmount (rec_amount args))) (\<lambda>amountStr.
             andThen (rethrow FailedToConvert (lift (kasToSompi kaspaToSompi amountStr)))
               (\<lambda>amountSompi.
             andThen (estimateFee sdk (rec_from args) (rec_to args) amountSompi)
               (\<lambda>baseFeeEstimate.
             andThen (lift (BigInt (Math_ceil
                        (jsTimes (Number (baseFee baseFeeEstimate)) (Fin (1 / 2))))))
               (\<lambda>low.
             andThen (lift (BigInt (Math_ceil
                        (jsTimes (Number (baseFee baseFeeEstimate)) (Fin 2)))))
               (\<lambda>high.
             andThen (lift (BigInt (Math_max (Fin 1) (Math_ceil
                        (jsTimes (Number (estimatedMass baseFeeEstimate)) (Fin 1))))))
               (\<lambda>minimum.
             succeed \<lparr> lowFee = low, normalFee = baseFee baseFeeEstimate, highFee = high,
                       minimumFee = minimum \<rparr>)))))))
            t)"

section \<open>A concrete session for worked examples\<close>

text \<open>
  A sender with two unspent entries of 50 and 30 KAS on a node that quotes a fee rate
  of 1; every transaction weighs 1000. The generator behaves as the engine's does: it
  spends only what the payment needs, here the first entry, pays the recipient and
  returns the rest, less the base fee and the priority fee, as change.
\<close>

definition exampleKey :: privateKey where
  "exampleKey = PrivateKey ''k0'' (\<lambda>network. ''kaspatest:sender'')"

definition exampleWallet :: wallet where
  "exampleWallet = SingleKeyWallet exampleKey"

definition exampleSDK :: KaspaSDK where
  "exampleSDK =
     \<lparr> rpcClient = True,
       sdkWallet = Some exampleWallet,
       networkType = ''testnet-10'',
       getUtxosByAddresses = (\<lambda>t a. Inr [utxoOf 5000000000, utxoOf 3000000000]),
       getBalanceByAddress = (\<lambda>t a. Inr 8000000000),
       getFeeEstimate =
         (\<lambda>t. Inr (Some \<lparr> priorityBucket = Some (Fin 1), normalBuckets = [], lowBuckets = [] \<rparr>)),
       createTransaction = (\<lambda>t us r a. Inr \<lparr> txid = ''draft'', inputs = us, outputs = [a] \<rparr>),
       calculateTransactionMass = (\<lambda>tx. 1000),
       createTransactions =
         (\<lambda>t us r a chg p payload.
            Inr [\<lparr> txid = ''tx1'', inputs = [utxoOf 5000000000],
                   outputs = [a, 5000000000 - a - (1000 + p)] \<rparr>]),
       signTransaction = (\<lambda>t tx k. Inr tx),
       submitTransaction = (\<lambda>t tx. Inr (txid tx)) \<rparr>"

definition exampleArgs :: SendArgs where
  "exampleArgs =
     \<lparr> arg_sessionId = None, arg_from = None, arg_to = ''kaspatest:recipient'',
       arg_amount = Some ''1'', arg_feePriority = None, arg_customFee = None,
       arg_priorityFee = None, arg_payload = None, arg_addressIndex = None \<rparr>"

definition exampleConfig :: "int option \<Rightarrow> int option \<Rightarrow> TransactionConfig" where
  "exampleConfig priority customTotal =
     \<lparr> cfg_from = FromKey exampleKey, cfg_to = ''kaspatest:recipient'',
       cfg_amount = 100000000, cfg_priorityFee = priority,
       cfg_customTotalFee = customTotal, cfg_payload = None, cfg_changeAddress = None \<rparr>"

definition zeroAmountArgs :: SendArgs where
  "zeroAmountArgs = exampleArgs\<lparr> arg_amount := Some ''0.0'' \<rparr>"

text \<open>
  The same payment of 1 KAS asked for at the \<open>high\<close> tier, and with a custom total fee
  of 2000 sompi.
\<close>

definition highPriorityArgs :: SendArgs where
  "highPriorityArgs = exampleArgs\<lparr> arg_feePriority := Some ''high'' \<rparr>"

definition customFeeArgs :: SendArgs where
  "customFeeArgs = exampleArgs\<lparr> arg_customFee := Some ''0.00002'' \<rparr>"

definition recommendArgs :: RecommendArgs where
  "recommendArgs =
     \<lparr> rec_sessionId = None, rec_from = ''kaspatest:sender'', rec_to = ''kaspatest:recipient'',
       rec_amount = Some ''1'' \<rparr>"

section \<open>Balance subscriptions: \<^verbatim>\<open>src/index.ts\<close>\<close>

text \<open>
  \<^verbatim>\<open>SubscriptionInfo\<close> (lines 18-23). A JavaScript \<^verbatim>\<open>Set\<close> keeps its elements in
  insertion order without repetition, so \<open>addresses\<close> is a list and \<open>setAdd\<close> its
  \<^verbatim>\<open>add\<close>. \<open>eventListener\<close> holds the closure registered with the SDK.
\<close>

definition setAdd :: "'a list \<Rightarrow> 'a \<Rightarrow> 'a list" where
  "setAdd xs x = (if x \<in> set xs then xs else xs @ [x])"

definition newSet :: "'a list \<Rightarrow> 'a list" where
  "newSet xs = foldl setAdd [] xs"

text \<open>
  The closure \<^verbatim>\<open>(data) => this.handleBalanceChangeEvent(sessionId, data, subscriptionInfo)\<close>
  of line 1335 captures the session key and a reference to the \<^verbatim>\<open>SubscriptionInfo\<close>
  object. Every call of \<^verbatim>\<open>handleSubscribeBalance\<close> creates a new object and a new closure,
  so a closure is identified by what it captures.
\<close>

datatype listener = Listener string nat

record SubscriptionInfo =
  addresses :: "string list"
  includeTransactions :: bool
  lastBalances :: "string \<rightharpoonup> int"
  eventListener :: "listener option"

text \<open>
  The data of an SDK event as the handler reads it, and the notification block the
  handler prints (the timestamp is left out).
\<close>

record EventData =
  ev_address :: "string option"
  ev_type :: "string option"
  ev_transactionId :: "string option"
  ev_amount :: "int option"

record Notification =
  n_session :: string
  n_address :: string
  n_event :: string
  n_transaction :: "string option"
  n_amount :: "int option"

text \<open>
  \<^verbatim>\<open>handleBalanceChangeEvent\<close>, lines 1519-1552. It writes nothing but the
  notification; the result is the list of notifications printed.
\<close>

definition handleBalanceChangeEvent ::
  "string \<Rightarrow> EventData \<Rightarrow> SubscriptionInfo \<Rightarrow> Notification list" where
  "handleBalanceChangeEvent sessionId data subscription =
     (if \<not> truthy (ev_address data) \<or> the (ev_address data) \<notin> set (addresses subscription)
      then []
      else [\<lparr> n_session = sessionId,
              n_address = the (ev_address data),
              n_event = (if truthy (ev_type data) then the (ev_type data) else ''unknown''),
              n_transaction =
                (if truthy (ev_transactionId data) \<and> includeTransactions subscription
                 then ev_transactionId data else None),
              n_amount = ev_amount data \<rparr>])"

text \<open>
  The server's state as far as subscriptions go: the two global maps, the
  \<^verbatim>\<open>SubscriptionInfo\<close> objects (a reference is an index into \<open>subscriptionObjects\<close>), and for
  each session key the \<^verbatim>\<open>eventListeners\<close> of the SDK stored under it (event name to
  handlers, a \<^verbatim>\<open>Set\<close> again).
\<close>

record Server =
  sdkInstances :: "string \<rightharpoonup> KaspaSDK"
  walletInstances :: "string \<rightharpoonup> wallet"
  subscriptionInstances :: "string \<rightharpoonup> nat"
  subscriptionObjects :: "SubscriptionInfo list"
  eventListeners :: "string \<Rightarrow> string \<Rightarrow> listener list"
  subscribeUtxosChanged :: "call list \<Rightarrow> string list \<Rightarrow> error + unit"
  unsubscribeUtxosChanged :: "call list \<Rightarrow> string list \<Rightarrow> error + unit"

text \<open>\<^verbatim>\<open>KaspaSDK.on\<close>, \<^verbatim>\<open>off\<close> and \<^verbatim>\<open>emit\<close>, lines 252-283.\<close>

definition sdkOn :: "Server \<Rightarrow> string \<Rightarrow> string \<Rightarrow> listener \<Rightarrow> Server" where
  "sdkOn srv sessionId event handler =
     srv\<lparr> eventListeners :=
            (eventListeners srv)
              (sessionId := (eventListeners srv sessionId)
                 (event := setAdd (eventListeners srv sessionId event) handler)) \<rparr>"

definition sdkOff :: "Server \<Rightarrow> string \<Rightarrow> string \<Rightarrow> listener \<Rightarrow> Server" where
  "sdkOff srv sessionId event handler =
     srv\<lparr> eventListeners :=
            (eventListeners srv)
              (sessionId := (eventListeners srv sessionId)
                 (event := removeAll handler (eventListeners srv sessionId event))) \<rparr>"

definition runListener :: "Server \<Rightarrow> EventData \<Rightarrow> listener \<Rightarrow> Notification list" where
  "runListener srv data l =
     (case l of Listener sessionId ref \<Rightarrow>
        handleBalanceChangeEvent sessionId data (subscriptionObjects srv ! ref))"

definition emit :: "Server \<Rightarrow> string \<Rightarrow> string \<Rightarrow> EventData \<Rightarrow> Notification list" where
  "emit srv sessionId event data =
     concat (map (runListener srv data) (eventListeners srv sessionId event))"

text \<open>
  \<^verbatim>\<open>subscribeToAddresses\<close> (lines 117-171) and \<^verbatim>\<open>unsubscribeFromAddresses\<close> (lines
  212-225) fail when the SDK has no RPC client or when the node rejects the request; the
  node's answers are the last two fields of \<open>Server\<close>.
\<close>

datatype subscriptionResponse =
    Subscribed "string list"
  | NoActiveSubscription
  | NoMatchingAddresses
  | Unsubscribed "string list" nat

record SubscribeArgs =
  sub_sessionId :: "string option"
  sub_addresses :: "string list option"
  sub_includeTransactions :: "bool option"

text \<open>
  \<^verbatim>\<open>KaspaWallet.getReceiveAddress\<close>: an HD wallet derives the key; a single-key wallet
  answers with its one address for every index.
\<close>

definition getReceiveAddress :: "wallet \<Rightarrow> string \<Rightarrow> nat \<Rightarrow> error + string" where
  "getReceiveAddress w network index =
     (case w of
        HDWallet receiveKey \<Rightarrow>
          (case receiveKey index of Inl e \<Rightarrow> Inl e | Inr k \<Rightarrow> Inr (toAddress k network))
      | SingleKeyWallet k \<Rightarrow> Inr (toAddress k network)
      | UninitializedWallet \<Rightarrow> Inl (CannotGetPrivateKey index))"

text \<open>Lines 1301-1309: the wallet's first five receive addresses, up to the first failure.\<close>

fun walletAddresses :: "wallet \<Rightarrow> string \<Rightarrow> nat \<Rightarrow> nat \<Rightarrow> string list" where
  "walletAddresses w network i 0 = []"
| "walletAddresses w network i (Suc n) =
     (case getReceiveAddress w network i of
        Inl e \<Rightarrow> []
      | Inr addr \<Rightarrow> addr # walletAddresses w network (Suc i) n)"

text \<open>
  Lines 1323-1332: \<^verbatim>\<open>sdk.getBalance\<close> is called for each address in turn and the answer
  stored in \<^verbatim>\<open>lastBalances\<close>, zero where the call throws.
\<close>

fun initialBalances ::
  "KaspaSDK \<Rightarrow> string list \<Rightarrow> (string \<rightharpoonup> int) \<Rightarrow> call list
     \<Rightarrow> call list \<times> (string \<rightharpoonup> int)" where
  "initialBalances sdk [] balances t = (t, balances)"
| "initialBalances sdk (addr # rest) balances t =
     (case getBalance sdk addr t of
        (t', Inl e) \<Rightarrow> initialBalances sdk rest (balances(addr \<mapsto> 0)) t'
      | (t', Inr balance) \<Rightarrow> initialBalances sdk rest (balances(addr \<mapsto> balance)) t')"

text \<open>
  \<^verbatim>\<open>handleSubscribeBalance\<close>, lines 1282-1372. The initial balances are fetched, then
  the SDK is asked to subscribe. The new \<^verbatim>\<open>SubscriptionInfo\<close> is appended to the
  objects; the closure is registered for three events and the map entry of the session is
  overwritten. Nothing is done about a subscription the session may already have.
\<close>

definition handleSubscribeBalance ::
  "Server \<Rightarrow> SubscribeArgs \<Rightarrow> call list
     \<Rightarrow> Server \<times> call list \<times> (mcpError + subscriptionResponse)" where
  "handleSubscribeBalance srv args t =
     (let sessionId = defaultSessionId (sub_sessionId args)
      in case sdkInstances srv sessionId of
           None \<Rightarrow> (srv, t, Inl (InvalidRequest ''No active connection. Please connect first.''))
         | Some sdk \<Rightarrow>
             (let given = (case sub_addresses args of None \<Rightarrow> [] | Some as \<Rightarrow> as)
              in if given = [] \<and> walletInstances srv sessionId = None
                 then (srv, t, Inl (InternalError ''Failed to subscribe to balance changes''
                                      NoAddressesAndNoWallet))
                 else
                   (let addressesToMonitor =
                          (if given \<noteq> [] then given
                           else walletAddresses (the (walletInstances srv sessionId))
                                  (networkType sdk) 0 5);
                        (t1, balances) = initialBalances sdk addressesToMonitor Map.empty t;
                        ref = length (subscriptionObjects srv);
                        eventListener = Listener sessionId ref;
                        subscriptionInfo =
                          \<lparr> addresses = newSet addressesToMonitor,
                            includeTransactions =
                              (case sub_includeTransactions args of None \<Rightarrow> True | Some b \<Rightarrow> b),
                            lastBalances = balances,
                            eventListener = Some eventListener \<rparr>;
                        t' = t1 @ [SubscribeUtxosChanged addressesToMonitor]
                    in if \<not> rpcClient sdk
                       then (srv, t1, Inl (InternalError ''Failed to subscribe to balance changes''
                                             SDKNotInitialized))
                       else
                         (case subscribeUtxosChanged srv t1 addressesToMonitor of
                            Inl e \<Rightarrow>
                              (srv, t', Inl (InternalError ''Failed to subscribe to balance changes'' e))
                          | Inr u \<Rightarrow>
                              (let srv1 = sdkOn srv sessionId ''transaction:incoming'' eventListener;
                                   srv2 = sdkOn srv1 sessionId ''transaction:spent'' eventListener;
                                   srv3 = sdkOn srv2 sessionId ''balance:changed'' eventListener
                               in (srv3\<lparr> subscriptionObjects :=
                                           subscriptionObjects srv @ [subscriptionInfo],
                                         subscriptionInstances :=
                                           (subscriptionInstances srv)(sessionId \<mapsto> ref) \<rparr>,
                                   t', Inr (Subscribed addressesToMonitor)))))))"

text \<open>
  \<^verbatim>\<open>handleUnsubscribeBalance\<close>, lines 1374-1455. The addresses are deleted from the
  object (lines 1417-1421) before the SDK is asked to unsubscribe (line 1424); the
  listener is removed and the map entry deleted (lines 1427-1434) only after that call has
  returned.
\<close>

definition handleUnsubscribeBalance ::
  "Server \<Rightarrow> string option \<Rightarrow> string list option \<Rightarrow> call list
     \<Rightarrow> Server \<times> call list \<times> (mcpError + subscriptionResponse)" where
  "handleUnsubscribeBalance srv sessionIdArg addressesArg t =
     (let sessionId = defaultSessionId sessionIdArg
      in case sdkInstances srv sessionId of
           None \<Rightarrow> (srv, t, Inl (InvalidRequest ''No active connection. Please connect first.''))
         | Some sdk \<Rightarrow>
        (case subscriptionInstances srv sessionId of
           None \<Rightarrow> (srv, t, Inr NoActiveSubscription)
         | Some ref \<Rightarrow>
             (let subscription = subscriptionObjects srv ! ref;
                  given = (case addressesArg of None \<Rightarrow> [] | Some as \<Rightarrow> as);
                  addressesToUnsubscribe =
                    (if given \<noteq> [] then filter (\<lambda>addr. addr \<in> set (addresses subscription)) given
                     else addresses subscription)
              in if addressesToUnsubscribe = [] then (srv, t, Inr NoMatchingAddresses)
                 else
                   (let subscription' =
                          subscription
                            \<lparr> addresses :=
                                filter (\<lambda>a. a \<notin> set addressesToUnsubscribe) (addresses subscription),
                              lastBalances :=
                                (\<lambda>k. if k \<in> set addressesToUnsubscribe then None
                                     else lastBalances subscription k) \<rparr>;
                        srv1 = srv\<lparr> subscriptionObjects :=
                                      (subscriptionObjects srv)[ref := subscription'] \<rparr>;
                        t' = t @ [UnsubscribeUtxosChanged addressesToUnsubscribe]
                    in if \<not> rpcClient sdk
                       then (srv1, t, Inl (InternalError ''Failed to unsubscribe'' SDKNotInitialized))
                       else
                         (case unsubscribeUtxosChanged srv t addressesToUnsubscribe of
                            Inl e \<Rightarrow> (srv1, t', Inl (InternalError ''Failed to unsubscribe'' e))
                          | Inr u \<Rightarrow>
                              (let srv2 =
                                     (if addresses subscription' = []
                                      then
                                        (let srvA =
                                               (case eventListener subscription' of
                                                  None \<Rightarrow> srv1
                                                | Some l \<Rightarrow>
                                                    sdkOff
                                                      (sdkOff
                                                         (sdkOff srv1 sessionId
                                                            ''transaction:incoming'' l)
                                                         sessionId ''transaction:spent'' l)
                                                      sessionId ''balance:changed'' l)
                                         in srvA\<lparr> subscriptionInstances :=
                                                    (subscriptionInstances srvA)(sessionId := None) \<rparr>)
                                      else srv1)
                               in (srv2, t', Inr (Unsubscribed addressesToUnsubscribe
                                                    (length (addresses subscription'))))))))))"

text \<open>
  A connected session for worked examples: an SDK under the key \<open>default\<close>, no wallet,
  no subscription, no listener, and a node that accepts every request.
\<close>

definition connectedServer :: Server where
  "connectedServer =
     \<lparr> sdkInstances = [''default'' \<mapsto> exampleSDK],
       walletInstances = Map.empty,
       subscriptionInstances = Map.empty,
       subscriptionObjects = [],
       eventListeners = (\<lambda>sessionId event. []),
       subscribeUtxosChanged = (\<lambda>t as. Inr ()),
       unsubscribeUtxosChanged = (\<lambda>t as. Inr ()) \<rparr>"

definition subscribeTo :: "string list \<Rightarrow> SubscribeArgs" where
  "subscribeTo as =
     \<lparr> sub_sessionId = None, sub_addresses = Some as, sub_includeTransactions = None \<rparr>"

definition incomingFor :: "string \<Rightarrow> EventData" where
  "incomingFor a =
     \<lparr> ev_address = Some a, ev_type = None, ev_transactionId = Some ''t1'',
       ev_amount = Some 100 \<rparr>"

text \<open>Three states reached from the connected session.\<close>

definition subscribedToA :: Server where
  "subscribedToA = fst (handleSubscribeBalance connectedServer (subscribeTo [''addrA'']) [])"

definition resubscribedToB :: Server where
  "resubscribedToB = fst (handleSubscribeBalance subscribedToA (subscribeTo [''addrB'']) [])"

definition nodeUnreachable :: Server where
  "nodeUnreachable =
     subscribedToA\<lparr> unsubscribeUtxosChanged :=
                      (\<lambda>t as. Inl (EngineFailure ''connection closed'')) \<rparr>"

definition afterFailedUnsubscribe :: Server where
  "afterFailedUnsubscribe =
     fst (handleUnsubscribeBalance nodeUnreachable None (Some [''addrA'']) [])"

section \<open>Properties of coin selection\<close>

subsection \<open>What the loop computes\<close>

lemma sumAmounts_simps [simp]:
  "sumAmounts [] = 0"
  "sumAmounts (u # us) = amount u + sumAmounts us"
  "sumAmounts (us @ vs) = sumAmounts us + sumAmounts vs"
  by (simp_all add: sumAmounts_def)







subsection \<open>Successful selection\<close>



subsection \<open>Failed selection\<close>



text \<open>
  The loop's test, not the total of the list, decides. Where an entry is smaller than
  its allowance the whole list can be short of the target plus all allowances while a
  prefix is not: here the loop exits after the first entry, never consumes the second,
  and selection succeeds.
\<close>

lemma selectUTXOs_early_exit_example:
  "sumAmounts [utxoOf 10, utxoOf 1]
     < 5 + int (length [utxoOf 10, utxoOf 1]) * feePerUtxoOf (Some 4)
   \<and> selectUTXOs [utxoOf 10, utxoOf 1] 5 (Some 4)
       = Inr \<lparr> selectedUtxos = [utxoOf 10], totalAmount = 10, change = 1 \<rparr>"
  by (simp add: selectUTXOs_def sortedUtxos_def feePerUtxoOf_def utxoOf_def Let_def)

subsection \<open>The caller's array\<close>

lemma pushLoop_frame:
  "selRef < length h \<Longrightarrow> pushLoop h selRef us alw tot need = (h', tot', need') \<Longrightarrow>
   length h' = length h \<and> (\<forall>i. i \<noteq> selRef \<longrightarrow> h' ! i = h ! i) \<and>
   selectLoop us alw (h ! selRef) tot need = (h' ! selRef, tot', need')"
proof (induction us arbitrary: h tot need)
  case Nil
  then show ?case by simp
next
  case (Cons u rest)
  show ?case
  proof (cases "need + alw \<le> tot + amount u")
    case True
    with Cons.prems show ?thesis by (auto simp: Let_def)
  next
    case False
    let ?h = "h[selRef := h ! selRef @ [u]]"
    from False Cons.prems(2) have
      "pushLoop ?h selRef rest alw (tot + amount u) (need + alw) = (h', tot', need')"
      by (simp add: Let_def)
    moreover from Cons.prems(1) have "selRef < length ?h" by simp
    ultimately have
      "length h' = length ?h \<and> (\<forall>i. i \<noteq> selRef \<longrightarrow> h' ! i = ?h ! i) \<and>
       selectLoop rest alw (?h ! selRef) (tot + amount u) (need + alw)
         = (h' ! selRef, tot', need')"
      using Cons.IH by blast
    with False Cons.prems(1) show ?thesis by (simp add: Let_def)
  qed
qed

text \<open>
  Claim C10. Whatever the caller's array holds and whether selection succeeds or fails,
  after the call the caller's array has the same elements in the same order; indeed every
  array that existed before the call is unchanged, because sorting and pushing happen in
  two arrays allocated by the call. The outcome is that of \<open>selectUTXOs\<close> on the
  array's content, the selected entries being the content of the returned fresh array.
\<close>

theorem selectUTXOs_heap_input_unchanged:
  assumes "availableRef < length h"
    and "selectUTXOs_heap h availableRef targetAmount feePerUtxoArg = (h', res)"
  shows "h' ! availableRef = h ! availableRef
         \<and> take (length h) h' = h
         \<and> (case res of
              Inl e \<Rightarrow> selectUTXOs (h ! availableRef) targetAmount feePerUtxoArg = Inl e
            | Inr (selRef, tot, chg) \<Rightarrow>
                length h \<le> selRef \<and>
                selectUTXOs (h ! availableRef) targetAmount feePerUtxoArg
                  = Inr \<lparr> selectedUtxos = h' ! selRef, totalAmount = tot, change = chg \<rparr>)"
proof -
  define alw where "alw = feePerUtxoOf feePerUtxoArg"
  define n where "n = length h"
  define h2 where "h2 = (h @ [h ! availableRef])[n := sortedUtxos (h ! availableRef)]"
  define h3 where "h3 = h2 @ [[]]"
  have h2: "h2 = h @ [sortedUtxos (h ! availableRef)]"
    by (simp add: h2_def n_def)
  have h3: "h3 = h @ [sortedUtxos (h ! availableRef), []]"
    by (simp add: h3_def h2)
  obtain h4 tot need where loop:
    "pushLoop h3 (Suc n) (sortedUtxos (h ! availableRef)) alw 0 targetAmount = (h4, tot, need)"
    by (metis prod_cases3)
  have copy: "h3 ! n = sortedUtxos (h ! availableRef)" and sel: "h3 ! Suc n = []"
    by (simp_all add: h3 n_def nth_append)
  have run: "selectUTXOs_heap h availableRef targetAmount feePerUtxoArg =
      (if tot < need then (h4, Inl (InsufficientFunds need tot))
       else (h4, Inr (Suc n, tot, tot - need)))"
    using loop copy
    by (simp add: selectUTXOs_heap_def alloc_def Let_def alw_def n_def h3 h2
        sortedUtxos_def nth_append)
  have "Suc n < length h3" by (simp add: h3 n_def)
  from pushLoop_frame[OF this loop] sel have frame:
    "length h4 = length h3" "\<forall>i. i \<noteq> Suc n \<longrightarrow> h4 ! i = h3 ! i"
    "selectLoop (sortedUtxos (h ! availableRef)) alw [] 0 targetAmount = (h4 ! Suc n, tot, need)"
    by simp_all
  have old: "h4 ! i = h ! i" if "i < n" for i
    using that frame(2) by (simp add: h3 n_def nth_append)
  have "take n h4 = h"
    using frame(1) old by (intro nth_equalityI) (simp_all add: h3 n_def)
  moreover have "h4 ! availableRef = h ! availableRef"
    using assms(1) old by (simp add: n_def)
  moreover have "selectUTXOs (h ! availableRef) targetAmount feePerUtxoArg =
      (if tot < need then Inl (InsufficientFunds need tot)
       else Inr \<lparr> selectedUtxos = h4 ! Suc n, totalAmount = tot, change = tot - need \<rparr>)"
    using frame(3) by (simp add: selectUTXOs_def alw_def Let_def)
  ultimately show ?thesis
    using assms(2) run by (auto simp: n_def split: if_splits)
qed

theorem selectUTXOs_heap_input_unchanged_witness:
  "(0::nat) < length [[utxoOf 5, utxoOf 10, utxoOf 3]]
   \<and> selectUTXOs_heap [[utxoOf 5, utxoOf 10, utxoOf 3]] 0 11 (Some 1)
       = ([[utxoOf 5, utxoOf 10, utxoOf 3], [utxoOf 10, utxoOf 5, utxoOf 3],
           [utxoOf 10, utxoOf 5]], Inr (2, 15, 2))
   \<and> [[utxoOf 5, utxoOf 10, utxoOf 3], [utxoOf 10, utxoOf 5, utxoOf 3],
           [utxoOf 10, utxoOf 5]] ! 0 = [[utxoOf 5, utxoOf 10, utxoOf 3]] ! 0"
proof -
  have len: "(0::nat) < length [[utxoOf 5, utxoOf 10, utxoOf 3]]" by simp
  have run: "selectUTXOs_heap [[utxoOf 5, utxoOf 10, utxoOf 3]] 0 11 (Some 1)
       = ([[utxoOf 5, utxoOf 10, utxoOf 3], [utxoOf 10, utxoOf 5, utxoOf 3],
           [utxoOf 10, utxoOf 5]], Inr (2, 15, 2))"
    by (simp add: selectUTXOs_heap_def alloc_def feePerUtxoOf_def utxoOf_def Let_def)
  from selectUTXOs_heap_input_unchanged[OF len run] len run show ?thesis
    by blast
qed

section \<open>Properties of session identifiers\<close>

lemma all_dropWhile_iff: "(\<forall>x\<in>set (dropWhile P s). P x) \<longleftrightarrow> (\<forall>x\<in>set s. P x)"
  by (induction s) auto

lemma trim_Nil_iff: "trim s = [] \<longleftrightarrow> list_all isWhiteSpace s"
  by (simp add: trim_def list_all_iff all_dropWhile_iff)

lemma dropWhile_unchanged: "xs = [] \<or> \<not> P (hd xs) \<Longrightarrow> dropWhile P xs = xs"
  by (cases xs) auto

lemma last_dropWhile: "dropWhile P xs \<noteq> [] \<Longrightarrow> last (dropWhile P xs) = last xs"
  by (induction xs) (auto split: if_splits)

lemma trim_trim: "trim (trim s) = trim s"
proof -
  define u where "u = dropWhile isWhiteSpace s"
  define v where "v = dropWhile isWhiteSpace (rev u)"
  have ts: "trim s = rev v" by (simp add: trim_def u_def v_def)
  show ?thesis
  proof (cases "v = []")
    case True
    with ts have e: "trim s = []" by simp
    have "trim [] = []" by (simp add: trim_def)
    then show ?thesis by (simp only: e)
  next
    case False
    then have hv: "\<not> isWhiteSpace (hd v)"
      unfolding v_def by (rule hd_dropWhile)
    from False have "u \<noteq> []" by (auto simp: v_def)
    then have hu: "\<not> isWhiteSpace (hd u)"
      unfolding u_def by (rule hd_dropWhile)
    from False have "last v = last (rev u)"
      unfolding v_def by (rule last_dropWhile)
    with \<open>u \<noteq> []\<close> have "last v = hd u" by (simp add: last_rev)
    with False hu have "\<not> isWhiteSpace (hd (rev v))" by (simp add: hd_rev)
    then have 1: "dropWhile isWhiteSpace (rev v) = rev v" by (intro dropWhile_unchanged) simp
    from hv have 2: "dropWhile isWhiteSpace v = v" by (intro dropWhile_unchanged) simp
    have "trim (rev v) = rev v" by (simp add: trim_def 1 2)
    then show ?thesis by (simp only: ts)
  qed
qed

text \<open>
  The helper itself does what is asked of it: a missing, empty or all-blank identifier
  becomes \<open>default\<close>, any other is trimmed, and an identifier and its trimmed form get
  the same key.
\<close>

lemma normalizeSessionId_blank:
  "normalizeSessionId None = ''default''"
  "list_all isWhiteSpace s \<Longrightarrow> normalizeSessionId (Some s) = ''default''"
  "\<not> list_all isWhiteSpace s \<Longrightarrow> normalizeSessionId (Some s) = trim s"
  by (auto simp: normalizeSessionId_def trim_Nil_iff)

lemma trim_empty: "trim [] = []"
  by (simp add: trim_def)

lemma normalizeSessionId_trimmed:
  "normalizeSessionId (Some (trim s)) = normalizeSessionId (Some s)"
  by (auto simp: normalizeSessionId_def trim_trim trim_empty)

lemma normalizeSessionId_examples:
  "normalizeSessionId (Some '''') = normalizeSessionId None"
  "normalizeSessionId (Some ''   '') = normalizeSessionId None"
  "normalizeSessionId (Some ''  abc  '') = normalizeSessionId (Some ''abc'')"
  by (simp_all add: normalizeSessionId_def trim_def isWhiteSpace_def)

text \<open>
  Claim C5 says that every operation normalises the identifier before the lookup. The
  handlers of \<^verbatim>\<open>kaspa_create_wallet\<close>, \<^verbatim>\<open>kaspa_send_transaction\<close>,
  \<^verbatim>\<open>kaspa_get_wallet_info\<close>, \<^verbatim>\<open>kaspa_send_from_wallet\<close> and
  \<^verbatim>\<open>kaspa_setup_preconfigured_wallet\<close> do. \<^verbatim>\<open>handleConnect\<close> and the other seven only
  replace a missing identifier: for \<open>''  abc  ''\<close> the connection is stored under the
  untrimmed key while a send with the same identifier looks under \<open>abc\<close>, and for the
  empty string the connection is stored under the empty key while the send looks under
  \<open>default\<close>.
\<close>

theorem sessionKey_connect_not_normalized:
  "sessionKey kaspa_connect (Some ''  abc  '') = ''  abc  ''
   \<and> sessionKey kaspa_send_transaction (Some ''  abc  '') = ''abc''
   \<and> sessionKey kaspa_connect (Some '''') = ''''
   \<and> sessionKey kaspa_send_transaction (Some '''') = ''default''
   \<and> sessionKey kaspa_connect None = ''default''"
  by (simp add: normalizeSessionId_def defaultSessionId_def trim_def isWhiteSpace_def)

section \<open>Properties of binary64 rounding\<close>

lemma bitLength_bounds:
  "0 < a \<Longrightarrow> 2 ^ (bitLength a - 1) \<le> a \<and> a < 2 ^ bitLength a"
proof (induction a rule: bitLength.induct)
  case (1 a)
  show ?case
  proof (cases "a = 1")
    case True
    then show ?thesis by (simp add: bitLength.simps[of 1] bitLength.simps[of 0])
  next
    case False
    with 1(2) have h: "0 < a div 2" by simp
    with 1 have ih: "2 ^ (bitLength (a div 2) - 1) \<le> a div 2" "a div 2 < 2 ^ bitLength (a div 2)"
      by simp_all
    from h have pos: "0 < bitLength (a div 2)" by (simp add: bitLength.simps[of "a div 2"])
    have bl: "bitLength a = Suc (bitLength (a div 2))"
      using 1(2) by (simp add: bitLength.simps[of a])
    from pos have e: "2 ^ (bitLength a - 1) = (2::int) * 2 ^ (bitLength (a div 2) - 1)"
      by (cases "bitLength (a div 2)") (simp_all add: bl)
    from ih show ?thesis unfolding e by (simp add: bl) linarith
  qed
qed

lemma bitLength_pos: "0 < a \<Longrightarrow> 0 < bitLength a"
  by (simp add: bitLength.simps[of a])

lemma floorLog2_bounds:
  assumes "0 < x"
  shows "2 powi (floorLog2 x) \<le> x \<and> x < 2 powi (floorLog2 x + 1)"
proof (cases "1 \<le> x")
  case True
  define a where "a = \<lfloor>x\<rfloor>"
  from True have a: "0 < a" by (simp add: a_def)
  from bitLength_bounds[OF a] have b: "2 ^ (bitLength a - 1) \<le> a" "a + 1 \<le> 2 ^ bitLength a"
    by simp_all
  have fl: "floorLog2 x = int (bitLength a - 1)" "floorLog2 x + 1 = int (bitLength a)"
    using True bitLength_pos[OF a] by (simp_all add: floorLog2_def a_def)
  have "(2::rat) ^ (bitLength a - 1) \<le> of_int a" using b(1) by simp
  moreover have "of_int a \<le> x" by (simp add: a_def)
  ultimately have lo: "(2::rat) ^ (bitLength a - 1) \<le> x" by (rule order_trans)
  have "x < of_int (a + 1)" unfolding a_def by linarith
  moreover have "(of_int (a + 1) :: rat) \<le> 2 ^ bitLength a"
    using b(2) by (simp only: of_int_le_numeral_power_cancel_iff)
  ultimately have hi: "x < (2::rat) ^ bitLength a" by (rule less_le_trans)
  have e1: "(2::rat) powi (floorLog2 x) = 2 ^ (bitLength a - 1)"
    by (simp only: fl(1) power_int_of_nat)
  have e2: "(2::rat) powi (floorLog2 x + 1) = 2 ^ bitLength a"
    by (simp only: fl(2) power_int_of_nat)
  from lo hi show ?thesis unfolding e1 e2 by simp
next
  case False
  define y where "y = 1 / x"
  define c where "c = \<lceil>y\<rceil>"
  from False assms have y1: "1 < y" by (simp add: y_def)
  then have c2: "0 < c - 1" unfolding c_def by linarith
  define k where "k = bitLength (c - 1)"
  from bitLength_bounds[OF c2] have b: "2 ^ (k - 1) \<le> c - 1" "c \<le> 2 ^ k"
    by (simp_all add: k_def)
  have kpos: "0 < k" using bitLength_pos[OF c2] by (simp add: k_def)
  have fl: "floorLog2 x = - int k" using False by (simp add: floorLog2_def k_def c_def y_def)
  have "y \<le> of_int c" by (simp add: c_def)
  moreover have "(of_int c :: rat) \<le> 2 ^ k" using b(2) by simp
  ultimately have "y \<le> 2 ^ k" by (rule order_trans)
  then have lo: "1 / 2 ^ k \<le> x" using assms
    by (simp add: y_def field_simps)
  have "of_int (c - 1) < y" unfolding c_def by linarith
  moreover have "(2::rat) ^ (k - 1) \<le> of_int (c - 1)"
    using b(1) by (simp only: numeral_power_le_of_int_cancel_iff)
  ultimately have "2 ^ (k - 1) < y" by linarith
  then have hi: "x < 1 / 2 ^ (k - 1)" using assms
    by (simp add: y_def field_simps)
  have p1: "(2::rat) powi (floorLog2 x) = 1 / 2 ^ k"
    by (simp add: fl power_int_minus field_simps)
  have p2: "(2::rat) powi (floorLog2 x + 1) = 1 / 2 ^ (k - 1)"
  proof -
    have "floorLog2 x + 1 = - int (k - 1)" using kpos by (simp add: fl)
    then show ?thesis by (simp add: power_int_minus field_simps)
  qed
  from lo hi show ?thesis unfolding p1 p2 by simp
qed


lemma roundHalfEven_of_int: "roundHalfEven (of_int m) = m"
  by (simp add: roundHalfEven_def)

lemma roundHalfEven_nonneg: "0 \<le> q \<Longrightarrow> 0 \<le> roundHalfEven q"
  by (auto simp: roundHalfEven_def Let_def)

lemma roundHalfEven_le: "q < of_int N \<Longrightarrow> roundHalfEven q \<le> N"
proof -
  assume "q < of_int N"
  then have "\<lfloor>q\<rfloor> < N" by linarith
  then show ?thesis by (auto simp: roundHalfEven_def Let_def)
qed

lemma powi_less_cancel:
  assumes "(2::rat) powi a < 2 powi b"
  shows "a < b"
proof (rule ccontr)
  note lt = assms
  assume "\<not> a < b"
  then have "b \<le> a" by simp
  then have "(2::rat) powi b \<le> 2 powi a" by (intro power_int_increasing) simp_all
  with lt show False by simp
qed

lemma toBinary64_fixed:
  assumes x: "x = of_int m * 2 powi k"
    and m: "\<bar>m\<bar> < 2 ^ 53"
    and k: "- 1074 \<le> k"
    and r: "\<bar>x\<bar> < 2 ^ 1024"
  shows "toBinary64 x = Fin x"
proof (cases "x = 0")
  case True
  then show ?thesis by (simp add: toBinary64_def)
next
  case False
  define e where "e = max (floorLog2 \<bar>x\<bar> - 52) (- 1074)"
  have pos: "0 < \<bar>x\<bar>" using False by simp
  have ax: "\<bar>x\<bar> = of_int \<bar>m\<bar> * 2 powi k"
    by (simp add: x abs_mult)
  have "(of_int \<bar>m\<bar> :: rat) < 2 ^ 53" using m by (simp only: of_int_less_numeral_power_cancel_iff)
  then have "\<bar>x\<bar> < 2 ^ 53 * 2 powi k"
    unfolding ax by (intro mult_strict_right_mono) simp_all
  also have "\<dots> = 2 powi (53 + k)"
    by (simp add: power_int_add)
  finally have "2 powi (floorLog2 \<bar>x\<bar>) < (2::rat) powi (53 + k)"
    using floorLog2_bounds[OF pos] by linarith
  then have "floorLog2 \<bar>x\<bar> < 53 + k" by (rule powi_less_cancel)
  with k have ek: "e \<le> k" by (simp add: e_def)
  have q: "\<bar>x\<bar> / 2 powi e = of_int (\<bar>m\<bar> * 2 ^ nat (k - e))"
  proof -
    have "(2::rat) powi k = 2 powi (k - e) * 2 powi e"
      by (simp add: power_int_add[symmetric])
    moreover have "(2::rat) powi (k - e) = 2 ^ nat (k - e)"
      using ek by (simp add: power_int_def)
    ultimately show ?thesis by (simp add: ax)
  qed
  have v: "of_int (roundHalfEven (\<bar>x\<bar> / 2 powi e)) * 2 powi e = \<bar>x\<bar>"
  proof -
    have "\<bar>x\<bar> / 2 powi e * 2 powi e = \<bar>x\<bar>" by simp
    then have "of_int (\<bar>m\<bar> * 2 ^ nat (k - e)) * 2 powi e = \<bar>x\<bar>"
      by (simp only: q)
    then show ?thesis
      by (simp only: q roundHalfEven_of_int)
  qed
  have "sgn x * \<bar>x\<bar> = x" by (simp add: sgn_mult_abs)
  with False r v show ?thesis
    by (simp add: toBinary64_def e_def[symmetric] Let_def)
qed

lemma toBinary64_shape:
  assumes "toBinary64 x = Fin v"
  shows "\<exists>m k. v = of_int m * 2 powi k \<and> \<bar>m\<bar> < 2 ^ 53 \<and> - 1074 \<le> k \<and> \<bar>v\<bar> < 2 ^ 1024"
proof (cases "x = 0")
  case True
  with assms have "v = 0" by (simp add: toBinary64_def)
  then show ?thesis by (intro exI[of _ 0]) simp
next
  case False
  define e where "e = max (floorLog2 \<bar>x\<bar> - 52) (- 1074)"
  define n where "n = roundHalfEven (\<bar>x\<bar> / 2 powi e)"
  have pos: "0 < \<bar>x\<bar>" using False by simp
  from assms False have fin: "\<not> 2 ^ 1024 \<le> of_int n * (2::rat) powi e"
    and v: "v = sgn x * (of_int n * 2 powi e)"
    by (auto simp: toBinary64_def e_def[symmetric] n_def[symmetric] Let_def split: if_splits)
  have n0: "0 \<le> n" unfolding n_def by (rule roundHalfEven_nonneg) (simp add: power_int_def)
  have e1: "floorLog2 \<bar>x\<bar> + 1 \<le> 53 + e" and e2: "- 1074 \<le> e" by (simp_all add: e_def)
  have "\<bar>x\<bar> < 2 powi (floorLog2 \<bar>x\<bar> + 1)" using floorLog2_bounds[OF pos] by simp
  also have "\<dots> \<le> 2 powi (53 + e)" using e1 by (intro power_int_increasing) simp_all
  also have "\<dots> = 2 ^ 53 * 2 powi e" by (simp add: power_int_add)
  finally have "\<bar>x\<bar> / 2 powi e < of_int (2 ^ 53)"
    by (simp add: field_simps)
  then have n53: "n \<le> 2 ^ 53" unfolding n_def by (rule roundHalfEven_le)
  have s: "sgn x = 1 \<or> sgn x = - 1" using False by (auto simp: sgn_if)
  have av: "\<bar>v\<bar> = of_int n * 2 powi e"
    using s n0 by (auto simp: v abs_mult)
  with fin have r: "\<bar>v\<bar> < 2 ^ 1024" by simp
  define sg :: int where "sg = (if x < 0 then - 1 else 1)"
  have sg: "sgn x = of_int sg" "\<bar>sg\<bar> = 1" by (simp_all add: sg_def sgn_if False)
  show ?thesis
  proof (cases "n = 2 ^ 53")
    case True
    have "v = of_int (sg * 2 ^ 52) * 2 powi (e + 1)"
      by (simp add: v sg(1) True power_int_add)
    moreover have "\<bar>sg * 2 ^ 52\<bar> < (2::int) ^ 53" by (simp add: abs_mult sg(2))
    moreover have "- 1074 \<le> e + 1" using e2 by simp
    ultimately show ?thesis using r by blast
  next
    case False
    with n53 n0 have "\<bar>sg * n\<bar> < 2 ^ 53" by (simp add: abs_mult sg(2))
    moreover have "v = of_int (sg * n) * 2 powi e" by (simp add: v sg(1))
    ultimately show ?thesis using r e2 by blast
  qed
qed

lemma toBinary64_idem: "toBinary64 x = Fin v \<Longrightarrow> toBinary64 v = Fin v"
  using toBinary64_shape[of x v] toBinary64_fixed[of v] by blast

lemma toBinary64_of_int_small:
  assumes "\<bar>n\<bar> < 2 ^ 53"
  shows "toBinary64 (of_int n) = Fin (of_int n)"
proof (rule toBinary64_fixed[of _ n 0])
  show "(of_int n :: rat) = of_int n * 2 powi 0" by simp
  show "\<bar>n\<bar> < 2 ^ 53" by fact
  show "- 1074 \<le> (0::int)" by simp
  have "\<bar>of_int n :: rat\<bar> = of_int \<bar>n\<bar>" by simp
  also have "\<dots> < 2 ^ 53" using assms by (simp only: of_int_less_numeral_power_cancel_iff)
  also have "\<dots> < (2::rat) ^ 1024" by simp
  finally show "\<bar>of_int n :: rat\<bar> < 2 ^ 1024" .
qed

lemma toBinary64_ceiling:
  assumes "toBinary64 v = Fin v"
  shows "toBinary64 (of_int \<lceil>v\<rceil>) = Fin (of_int \<lceil>v\<rceil>)"
proof -
  from toBinary64_shape[OF assms] obtain m k where mk:
    "v = of_int m * 2 powi k" "\<bar>m\<bar> < 2 ^ 53" "- 1074 \<le> k" "\<bar>v\<bar> < 2 ^ 1024"
    by blast
  show ?thesis
  proof (cases "0 \<le> k")
    case True
    then have "v = of_int (m * 2 ^ nat k)" by (simp add: mk(1) power_int_def)
    then obtain j :: int where j: "v = of_int j" ..
    have "of_int \<lceil>v\<rceil> = v" unfolding j by (simp only: ceiling_of_int)
    with assms show ?thesis by (simp only:)
  next
    case False
    have "(of_int \<bar>m\<bar> :: rat) < 2 ^ 53"
      using mk(2) by (simp only: of_int_less_numeral_power_cancel_iff)
    moreover have "(2::rat) powi k \<le> 2 powi (- 1)"
      using False by (intro power_int_increasing) simp_all
    ultimately have "of_int \<bar>m\<bar> * (2::rat) powi k \<le> 2 ^ 53 * 2 powi (- 1)"
      by (intro mult_mono) simp_all
    then have "\<bar>v\<bar> \<le> 2 ^ 52" by (simp add: mk(1) abs_mult)
    then have "- (2 ^ 52) \<le> v" "v \<le> 2 ^ 52" by (simp_all add: abs_le_iff) 
    then have "- 4503599627370496 \<le> v" "v \<le> 4503599627370496" by simp_all
    then have "- 4503599627370496 \<le> \<lceil>v\<rceil>" "\<lceil>v\<rceil> \<le> 4503599627370496"
      by linarith+
    then have "\<bar>\<lceil>v\<rceil>\<bar> < 9007199254740992" by linarith
    then have "\<bar>\<lceil>v\<rceil>\<bar> < 2 ^ 53" by simp
    then show ?thesis by (rule toBinary64_of_int_small)
  qed
qed

lemma toBinary64_scale_int:
  assumes b: "toBinary64 (of_int b) = Fin (of_int b)"
    and c: "c = - 1 \<or> c = 0 \<or> c = 1"
    and r: "\<bar>of_int b * (2::rat) powi c\<bar> < 2 ^ 1024"
  shows "toBinary64 (of_int b * 2 powi c) = Fin (of_int b * 2 powi c)"
proof (cases "b = 0")
  case True
  then show ?thesis by (simp add: toBinary64_def)
next
  case False
  from toBinary64_shape[OF b] obtain m k where mk:
    "(of_int b :: rat) = of_int m * 2 powi k" "\<bar>m\<bar> < 2 ^ 53" "- 1074 \<le> k"
    by blast
  have "(of_int \<bar>m\<bar> :: rat) < 2 ^ 53"
    using mk(2) by (simp only: of_int_less_numeral_power_cancel_iff)
  then have lt: "of_int \<bar>m\<bar> * (2::rat) powi k < 2 ^ 53 * 2 powi k"
    by (intro mult_strict_right_mono) simp_all
  have "(of_int 1 :: rat) \<le> of_int \<bar>b\<bar>" using False by (simp only: of_int_le_iff)
  then have "(1::rat) \<le> \<bar>of_int b\<bar>" by simp
  also have "\<bar>of_int b :: rat\<bar> = of_int \<bar>m\<bar> * 2 powi k"
    by (simp add: mk(1) abs_mult)
  also note lt
  also have "(2::rat) ^ 53 * 2 powi k = 2 powi (53 + k)" by (simp add: power_int_add)
  finally have "(2::rat) powi 0 < 2 powi (53 + k)" by simp
  then have "0 < 53 + k" by (rule powi_less_cancel)
  with c have k': "- 1074 \<le> k + c" by auto
  have "of_int b * (2::rat) powi c = of_int m * 2 powi (k + c)"
    by (simp add: mk(1) power_int_add)
  from toBinary64_fixed[OF this mk(2) k' r] show ?thesis .
qed

text \<open>A magnitude of \<open>2^1024\<close> or more overflows.\<close>

lemma roundHalfEven_ge: "of_int L \<le> q \<Longrightarrow> L \<le> roundHalfEven q"
proof -
  assume "of_int L \<le> q"
  then have "L \<le> \<lfloor>q\<rfloor>" by linarith
  then show ?thesis by (auto simp: roundHalfEven_def Let_def)
qed

lemma toBinary64_overflow:
  assumes "2 ^ 1024 \<le> \<bar>x\<bar>"
  shows "toBinary64 x = Infinity (x < 0)"
proof -
  define e0 where "e0 = floorLog2 \<bar>x\<bar>"
  define e where "e = max (e0 - 52) (- 1074)"
  define n where "n = roundHalfEven (\<bar>x\<bar> / 2 powi e)"
  have "(0::rat) < 2 ^ 1024" by simp
  with assms have pos: "0 < \<bar>x\<bar>" by linarith
  then have nz: "x \<noteq> 0" by simp
  from floorLog2_bounds[OF pos] have lo: "2 powi e0 \<le> \<bar>x\<bar>" and hi: "\<bar>x\<bar> < 2 powi (e0 + 1)"
    by (simp_all add: e0_def)
  have "(2::rat) powi 1024 \<le> \<bar>x\<bar>" using assms by simp
  with hi have "(2::rat) powi 1024 < 2 powi (e0 + 1)" by linarith
  then have big: "1024 \<le> e0" using powi_less_cancel[of 1024 "e0 + 1"] by simp
  then have e: "e = e0 - 52" by (simp add: e_def)
  have "(2::rat) powi e0 = 2 ^ 52 * 2 powi e" by (simp add: e power_int_diff)
  with lo have "of_int (2 ^ 52) \<le> \<bar>x\<bar> / 2 powi e"
    by (simp add: field_simps)
  then have "2 ^ 52 \<le> n" unfolding n_def by (rule roundHalfEven_ge)
  then have "(2::rat) ^ 52 \<le> of_int n" by simp
  then have "(2::rat) ^ 52 * 2 powi e \<le> of_int n * 2 powi e"
    by (intro mult_right_mono) simp_all
  moreover have "(2::rat) powi 1024 \<le> 2 powi e0"
    using big by (intro power_int_increasing) simp_all
  then have "(2::rat) powi 1024 \<le> 2 ^ 52 * 2 powi e"
    by (simp only: \<open>(2::rat) powi e0 = 2 ^ 52 * 2 powi e\<close>)
  ultimately have "(2::rat) powi 1024 \<le> of_int n * 2 powi e"
    by (rule order_trans[rotated])
  then have "(2::rat) ^ 1024 \<le> of_int n * 2 powi e" by simp
  with nz show ?thesis
    by (simp add: toBinary64_def e0_def[symmetric] e_def[symmetric] n_def[symmetric] Let_def)
qed

text \<open>Small whole numbers, as the worked examples use them.\<close>

lemma toBinary64_numeral:
  "toBinary64 1 = Fin 1"
  "numeral k < (2::int) ^ 53 \<Longrightarrow> toBinary64 (numeral k) = Fin (numeral k)"
  using toBinary64_of_int_small[of 1] toBinary64_of_int_small[of "numeral k"]
  by simp_all

lemma jsTimes_Fin: "jsTimes x y = Fin v \<Longrightarrow> toBinary64 v = Fin v"
  by (cases x; cases y) (auto intro: toBinary64_idem split: if_splits)

lemma BigInt_ceil: "BigInt (Math_ceil (Fin v)) = Inr \<lceil>v\<rceil>"
  by (simp add: BigInt_def Math_ceil_def)

lemma BigInt_ceil_Inr:
  "BigInt (Math_ceil x) = Inr b \<Longrightarrow> \<exists>v. x = Fin v \<and> b = \<lceil>v\<rceil>"
  by (cases x) (simp_all add: BigInt_def Math_ceil_def)

section \<open>Properties of the fee tiers\<close>

text \<open>
  The three multipliers are powers of two, so the product with a base fee that binary64
  holds exactly is exact; only a product of \<open>2^1024\<close> or more is not finite, and then
  \<^verbatim>\<open>BigInt\<close> throws.
\<close>

lemma feeMultiplier_powi:
  "\<exists>c. (c = - 1 \<or> c = 0 \<or> c = 1) \<and> feeMultiplier feePriority = 2 powi c"
proof -
  have "feeMultiplier feePriority = 2 powi (- 1) \<or> feeMultiplier feePriority = 2 powi 0
        \<or> feeMultiplier feePriority = 2 powi 1"
    by (simp add: feeMultiplier_def power_int_minus)
  then show ?thesis by blast
qed

lemma priorityFeeForTier_value:
  assumes "Number b = Fin (of_int b)"
  shows "priorityFeeForTier feePriority b =
           (if 2 ^ 1024 \<le> \<bar>of_int b * feeMultiplier feePriority\<bar> then Inl RangeError
            else Inr \<lceil>of_int b * feeMultiplier feePriority\<rceil>)"
proof -
  from feeMultiplier_powi obtain c where c: "c = - 1 \<or> c = 0 \<or> c = 1"
    and m: "feeMultiplier feePriority = 2 powi c" by blast
  from assms have b: "toBinary64 (of_int b) = Fin (of_int b)" by (simp add: Number_def)
  show ?thesis
  proof (cases "2 ^ 1024 \<le> \<bar>of_int b * feeMultiplier feePriority\<bar>")
    case True
    from toBinary64_overflow[OF True] True assms show ?thesis
      by (simp add: priorityFeeForTier_def Math_ceil_def BigInt_def)
  next
    case False
    then have "\<bar>of_int b * (2::rat) powi c\<bar> < 2 ^ 1024" by (simp add: m)
    from toBinary64_scale_int[OF b c this] False assms show ?thesis
      by (simp add: priorityFeeForTier_def m BigInt_ceil del: of_int_mult)
  qed
qed

text \<open>
  The arithmetic of the tier fee,
  \<^verbatim>\<open>BigInt(Math.ceil(Number(feeEstimate.baseFee) * feeMultiplier))\<close>: for a base fee that
  binary64 holds exactly and that leaves room for one doubling, it is the base fee times
  0.5 for \<open>low\<close>, 1 for \<open>normal\<close> and 2 for \<open>high\<close>, rounded up to an integer.
\<close>

lemma priorityFeeForTier_multiplier:
  assumes "Number b = Fin (of_int b)" and "\<bar>b\<bar> < 2 ^ 1023"
  shows "priorityFeeForTier ''low'' b = Inr \<lceil>of_int b * (1 / 2 :: rat)\<rceil>
       \<and> priorityFeeForTier ''normal'' b = Inr \<lceil>of_int b * (1 :: rat)\<rceil>
       \<and> priorityFeeForTier ''high'' b = Inr \<lceil>of_int b * (2 :: rat)\<rceil>"
proof -
  from assms(2) have "(of_int \<bar>b\<bar> :: rat) < 2 ^ 1023"
    by (simp only: of_int_less_numeral_power_cancel_iff)
  then have small: "\<bar>of_int b :: rat\<bar> < 2 ^ 1023" by simp
  have "\<bar>of_int b * m\<bar> < (2::rat) ^ 1024" if "\<bar>m\<bar> \<le> 2" for m :: rat
  proof -
    have "\<bar>of_int b * m\<bar> = \<bar>of_int b\<bar> * \<bar>m\<bar>" by (simp add: abs_mult)
    also have "\<dots> \<le> \<bar>of_int b\<bar> * 2" using that by (intro mult_left_mono) auto
    also have "\<dots> < 2 ^ 1023 * 2" using small by simp
    also have "\<dots> = (2::rat) ^ 1024" by simp
    finally show ?thesis .
  qed
  from this[of "1 / 2"] this[of 1] this[of 2] show ?thesis
    by (simp add: priorityFeeForTier_value[OF assms(1)] feeMultiplier_def del: of_int_mult)
qed

lemma priorityFeeForTier_high_1000: "priorityFeeForTier ''high'' 1000 = Inr 2000"
  by (simp add: priorityFeeForTier_def Number_def feeMultiplier_def toBinary64_numeral
      BigInt_def Math_ceil_def)

text \<open>
  For other integers \<^verbatim>\<open>Number\<close> rounds: a base fee of \<open>2^53 + 1\<close>, which no binary64
  number holds, would give \<open>2^54\<close> for \<open>high\<close>, not \<open>2^54 + 2\<close>.
\<close>

lemma priorityFeeForTier_rounds_beyond_2_53:
  "priorityFeeForTier ''high'' (2 ^ 53 + 1) = Inr (2 ^ 54)"
proof -
  have "bitLength 9007199254740993 = 54"
    by (simp add: bitLength.simps)
  moreover have "\<lfloor>(9007199254740993::rat) / 2\<rfloor> = 4503599627370496"
    by (simp add: floor_eq_iff)
  ultimately have "toBinary64 9007199254740993 = Fin 9007199254740992"
    by (simp add: toBinary64_def floorLog2_def roundHalfEven_def Let_def)
  moreover have "toBinary64 18014398509481984 = Fin 18014398509481984"
    using toBinary64_fixed[of 18014398509481984 1 54] by simp
  ultimately show ?thesis
    by (simp add: priorityFeeForTier_def Number_def feeMultiplier_def BigInt_def Math_ceil_def)
qed

section \<open>Properties of the send pipeline\<close>

lemmas io_defs = succeed_def raise_def lift_def andThen_def engineCall_def rethrow_def

subsection \<open>What each step adds to the log\<close>

lemma estimateFee_log:
  "estimateFee sdk a r m t = (t', res) \<Longrightarrow>
   \<exists>new. t' = t @ new \<and> (\<forall>p. CreateTransactions p \<notin> set new)"
  by (auto simp: estimateFee_def io_defs Let_def split: if_splits sum.splits prod.splits)

lemma senderKey_log:
  "senderKey sdk s t = (t', res) \<Longrightarrow>
   \<exists>new. t' = t @ new \<and> (\<forall>p. CreateTransactions p \<notin> set new)"
  by (auto simp: senderKey_def getReceivePrivateKey_def io_defs
      split: sender.splits option.splits)

lemma buildSignSubmit_log:
  "buildSignSubmit sdk config k a us p t = (t', res) \<Longrightarrow>
   \<exists>new. t' = t @ new \<and> (\<forall>q. CreateTransactions q \<in> set new \<longrightarrow> q = p)
      \<and> ((\<exists>r. res = Inr r) \<longrightarrow> CreateTransactions p \<in> set new)"
  by (auto simp: buildSignSubmit_def io_defs Let_def split: sum.splits prod.splits list.splits)

lemma getReceivePrivateKey_log:
  "\<exists>r. getReceivePrivateKey w i t = (t @ [DeriveReceiveKey i], r)"
  by (simp add: getReceivePrivateKey_def io_defs)

lemma findSenderKey_log:
  "findSenderKey w network a i n t = (t', res) \<Longrightarrow>
   \<exists>new. t' = t @ new \<and> (\<forall>p. CreateTransactions p \<notin> set new)"
proof (induction n arbitrary: i t)
  case 0
  then show ?case by (simp add: io_defs)
next
  case (Suc n)
  obtain r where r: "getReceivePrivateKey w i t = (t @ [DeriveReceiveKey i], r)"
    using getReceivePrivateKey_log by blast
  show ?case
  proof (cases r)
    case (Inl e)
    with Suc.prems r show ?thesis by auto
  next
    case (Inr privKey)
    show ?thesis
    proof (cases "toAddress privKey network = a")
      case True
      with Suc.prems r Inr show ?thesis by auto
    next
      case False
      with Suc.prems r Inr have
        "findSenderKey w network a (Suc i) n (t @ [DeriveReceiveKey i]) = (t', res)"
        by simp
      from Suc.IH[OF this] obtain new where
        "t' = (t @ [DeriveReceiveKey i]) @ new" "\<forall>p. CreateTransactions p \<notin> set new"
        by blast
      then show ?thesis
        by (intro exI[of _ "DeriveReceiveKey i # new"]) simp
    qed
  qed
qed

lemma sendTransactionFee_log:
  assumes "sendTransactionFee sdk w k args a t = (t', res)"
  shows "\<exists>new. t' = t @ new \<and> (\<forall>p. CreateTransactions p \<notin> set new)"
proof (cases "truthy (arg_customFee args)
              \<or> (truthy (arg_priorityFee args) \<and> arg_priorityFee args \<noteq> Some ''0'')")
  case True
  with assms have "t' = t" by (auto simp: sendTransactionFee_def io_defs split: if_splits)
  then show ?thesis by simp
next
  case False
  obtain t1 r1 where s: "(if truthy (arg_from args) then succeed (the (arg_from args))
                 else andThen (getReceivePrivateKey w 0)
                        (\<lambda>privKey. succeed (toAddress privKey (networkType sdk)))) t = (t1, r1)"
    by (metis surj_pair)
  then have n1: "\<exists>new. t1 = t @ new \<and> (\<forall>p. CreateTransactions p \<notin> set new)"
    by (auto simp: getReceivePrivateKey_def io_defs split: if_splits sum.splits)
  show ?thesis
  proof (cases r1)
    case (Inl e)
    with assms False s n1 show ?thesis
      by (auto simp: sendTransactionFee_def andThen_def)
  next
    case (Inr senderAddress)
    obtain t2 r2 where e: "estimateFee sdk senderAddress (arg_to args) a t1 = (t2, r2)"
      by (metis surj_pair)
    from estimateFee_log[OF e] obtain n2 where
      n2: "t2 = t1 @ n2" "\<forall>p. CreateTransactions p \<notin> set n2" by blast
    from assms False s Inr e have "t' = t2"
      by (auto simp: sendTransactionFee_def andThen_def lift_def split: sum.splits)
    with n1 n2 show ?thesis by auto
  qed
qed

lemma getBalance_log:
  "getBalance sdk a t = (t', res) \<Longrightarrow>
   \<exists>new. t' = t @ new \<and> (\<forall>p. CreateTransactions p \<notin> set new)"
  by (auto simp: getBalance_def io_defs split: if_splits sum.splits)


lemma sendFromWalletFee_log:
  assumes "sendFromWalletFee sdk k args a m t = (t', res)"
  shows "\<exists>new. t' = t @ new \<and> (\<forall>p. CreateTransactions p \<notin> set new)"
proof (cases "truthy (arg_customFee args)")
  case True
  with assms have "t' = t" by (auto simp: sendFromWalletFee_def io_defs)
  then show ?thesis by simp
next
  case False
  obtain t2 r2 where e: "estimateFee sdk a (arg_to args) m t = (t2, r2)"
    by (metis surj_pair)
  from assms False e have "t' = t2"
    by (auto simp: sendFromWalletFee_def andThen_def lift_def split: sum.splits)
  with estimateFee_log[OF e] show ?thesis by simp
qed


subsection \<open>The worked example, step by step\<close>

lemmas js_defs = truthy_def trim_def isWhiteSpace_def parseFloat_def isNaN_def ltZero_def
  isDigit_def digits_def digitVal_def digitsValue_def parseExponent_def scale10_def

lemma exampleSDK_sel:
  "rpcClient exampleSDK" "networkType exampleSDK = ''testnet-10''"
  by (simp_all add: exampleSDK_def)

lemma exampleKey_address: "toAddress exampleKey n = ''kaspatest:sender''"
  by (simp add: exampleKey_def)

lemma exampleWallet_key0:
  "getReceivePrivateKey exampleWallet 0 t = (t @ [DeriveReceiveKey 0], Inr exampleKey)"
  by (simp add: getReceivePrivateKey_def exampleWallet_def io_defs)

lemma example_estimateFee:
  "estimateFee exampleSDK ''kaspatest:sender'' r a t =
   (t @ [GetUtxosByAddresses ''kaspatest:sender'', GetFeeEstimate, CreateTransaction],
    Inr \<lparr> baseFee = 1000, massLimit = 100000, estimatedMass = 1000, totalFee = 1000 \<rparr>)"
  by (simp add: estimateFee_def selectFeerate_def asBinary64_def numberTruthy_def Number_def
      toBinary64_numeral BigInt_def Math_ceil_def io_defs exampleSDK_def utxoOf_def Let_def)

lemma example_sendTransaction:
  "sendTransaction exampleSDK
      \<lparr> cfg_from = FromKey exampleKey, cfg_to = r, cfg_amount = a, cfg_priorityFee = Some p,
        cfg_customTotalFee = None, cfg_payload = pl, cfg_changeAddress = None \<rparr> t
   = (t @ [GetUtxosByAddresses ''kaspatest:sender'', CreateTransactions p, SignTransaction,
           SubmitTransaction ''tx1''],
      Inr \<lparr> transactionId = ''tx1'', fee = 3000001000 + p, mass = 1000 \<rparr>)"
  by (simp add: sendTransaction_def senderKey_def buildSignSubmit_def io_defs
      exampleKey_address exampleSDK_def utxoOf_def Let_def)

lemma example_sendTransaction_customTotalFee:
  "sendTransaction exampleSDK (exampleConfig None (Some 5000)) []
     = ([GetUtxosByAddresses ''kaspatest:sender'', GetUtxosByAddresses ''kaspatest:sender'',
         GetFeeEstimate, CreateTransaction, CreateTransactions 4000, SignTransaction,
         SubmitTransaction ''tx1''],
        Inr \<lparr> transactionId = ''tx1'', fee = 3000005000, mass = 1000 \<rparr>)"
  by (simp add: sendTransaction_def sendTransactionWithCustomFee_def senderKey_def
      estimateFee_def selectFeerate_def asBinary64_def numberTruthy_def Number_def
      toBinary64_numeral BigInt_def Math_ceil_def buildSignSubmit_def io_defs exampleSDK_def
      exampleConfig_def exampleKey_def utxoOf_def Let_def)

subsection \<open>Custom total fee\<close>

text \<open>
  Claim C2. When a send request carries a custom total fee, every generator call the
  request makes is given the priority fee \<open>max 0 (customTotalFee - baseFee)\<close>, where
  \<open>baseFee\<close> is the base fee of the estimate fetched earlier in the same request: the
  difference when the custom fee is at least the base fee, and exactly 0 when it is
  smaller. A request that succeeds has made that call.
\<close>

theorem customTotalFee_backsolved:
  assumes "cfg_customTotalFee config = Some customTotalFee"
    and "sendTransaction sdk config t = (t', res)"
  shows "\<exists>new. t' = t @ new \<and>
     (\<forall>p. CreateTransactions p \<in> set new \<longrightarrow>
        (\<exists>sender before after est rest.
            estimateFee sdk sender (cfg_to config) (cfg_amount config) (t @ before)
              = (after, Inr est)
            \<and> t' = after @ rest
            \<and> p = max 0 (customTotalFee - baseFee est)
            \<and> (baseFee est \<le> customTotalFee \<longrightarrow> p = customTotalFee - baseFee est)
            \<and> (customTotalFee < baseFee est \<longrightarrow> p = 0)))
     \<and> ((\<exists>r. res = Inr r) \<longrightarrow> (\<exists>p. CreateTransactions p \<in> set new))"
proof -
  from assms have run: "sendTransactionWithCustomFee sdk config customTotalFee t = (t', res)"
    by (simp add: sendTransaction_def)
  show ?thesis
  proof (cases "rpcClient sdk")
    case False
    with run show ?thesis
      by (auto simp: sendTransactionWithCustomFee_def io_defs)
  next
    case True
    obtain t1 r1 where key: "senderKey sdk (cfg_from config) t = (t1, r1)"
      by (cases "senderKey sdk (cfg_from config) t")
    from senderKey_log[OF key] obtain n1 where n1:
      "t1 = t @ n1" "\<forall>p. CreateTransactions p \<notin> set n1" by blast
    show ?thesis
    proof (cases r1)
      case (Inl e)
      with run True key n1 show ?thesis
        by (auto simp: sendTransactionWithCustomFee_def io_defs)
    next
      case (Inr senderPrivateKey)
      define senderAddress where "senderAddress = toAddress senderPrivateKey (networkType sdk)"
      define t2 where "t2 = t1 @ [GetUtxosByAddresses senderAddress]"
      show ?thesis
      proof (cases "getUtxosByAddresses sdk t1 senderAddress")
        case (Inl e)
        with run True key Inr n1 show ?thesis
          by (auto simp: sendTransactionWithCustomFee_def io_defs senderAddress_def Let_def)
      next
        case utxos: (Inr utxos)
        show ?thesis
        proof (cases "utxos = []")
          case True
          with run \<open>rpcClient sdk\<close> key Inr utxos n1 show ?thesis
            by (auto simp: sendTransactionWithCustomFee_def io_defs senderAddress_def Let_def)
        next
          case False
          obtain t3 r3 where est:
            "estimateFee sdk senderAddress (cfg_to config) (cfg_amount config) t2 = (t3, r3)"
            by (cases "estimateFee sdk senderAddress (cfg_to config) (cfg_amount config) t2")
          from estimateFee_log[OF est] obtain n3 where n3:
            "t3 = t2 @ n3" "\<forall>p. CreateTransactions p \<notin> set n3" by blast
          show ?thesis
          proof (cases r3)
            case (Inl e)
            with run \<open>rpcClient sdk\<close> key Inr utxos False est n1 n3 show ?thesis
              by (auto simp: sendTransactionWithCustomFee_def io_defs senderAddress_def
                  t2_def Let_def)
          next
            case estimate: (Inr baseFeeEstimate)
            define priorityFee where "priorityFee =
               (if customTotalFee > baseFee baseFeeEstimate
                then customTotalFee - baseFee baseFeeEstimate else 0)"
            from run \<open>rpcClient sdk\<close> key Inr utxos False est estimate have tail:
              "buildSignSubmit sdk config senderPrivateKey senderAddress utxos priorityFee t3
                 = (t', res)"
              by (simp add: sendTransactionWithCustomFee_def io_defs senderAddress_def
                  t2_def priorityFee_def Let_def)
            from buildSignSubmit_log[OF tail] obtain n4 where n4:
              "t' = t3 @ n4" "\<forall>q. CreateTransactions q \<in> set n4 \<longrightarrow> q = priorityFee"
              "(\<exists>r. res = Inr r) \<longrightarrow> CreateTransactions priorityFee \<in> set n4"
              by blast
            have pf: "priorityFee = max 0 (customTotalFee - baseFee baseFeeEstimate)"
              "baseFee baseFeeEstimate \<le> customTotalFee \<longrightarrow>
                 priorityFee = customTotalFee - baseFee baseFeeEstimate"
              "customTotalFee < baseFee baseFeeEstimate \<longrightarrow> priorityFee = 0"
              by (auto simp: priorityFee_def)
            have before: "t2 = t @ (n1 @ [GetUtxosByAddresses senderAddress])"
              using n1(1) by (simp add: t2_def)
            have log: "t' = t @ (n1 @ [GetUtxosByAddresses senderAddress] @ n3 @ n4)"
              using n1(1) n3(1) n4(1) by (simp add: t2_def)
            have only: "q = priorityFee"
              if "CreateTransactions q \<in> set (n1 @ [GetUtxosByAddresses senderAddress] @ n3 @ n4)"
              for q
              using that n1(2) n3(2) n4(2) by auto
            show ?thesis
            proof (intro exI[of _ "n1 @ [GetUtxosByAddresses senderAddress] @ n3 @ n4"] conjI
                allI impI)
              show "t' = t @ n1 @ [GetUtxosByAddresses senderAddress] @ n3 @ n4"
                using log by simp
            next
              fix p
              assume "CreateTransactions p
                        \<in> set (n1 @ [GetUtxosByAddresses senderAddress] @ n3 @ n4)"
              then have "p = priorityFee" by (rule only)
              with est[unfolded before] estimate pf n4(1) show
                "\<exists>sender before after est rest.
                   estimateFee sdk sender (cfg_to config) (cfg_amount config) (t @ before)
                     = (after, Inr est)
                   \<and> t' = after @ rest
                   \<and> p = max 0 (customTotalFee - baseFee est)
                   \<and> (baseFee est \<le> customTotalFee \<longrightarrow> p = customTotalFee - baseFee est)
                   \<and> (customTotalFee < baseFee est \<longrightarrow> p = 0)"
                by blast
            next
              assume "\<exists>r. res = Inr r"
              with n4(3) show
                "\<exists>p. CreateTransactions p
                        \<in> set (n1 @ [GetUtxosByAddresses senderAddress] @ n3 @ n4)"
                by auto
            qed
          qed
        qed
      qed
    qed
  qed
qed

theorem customTotalFee_backsolved_witness:
  "cfg_customTotalFee (exampleConfig None (Some 5000)) = Some 5000
   \<and> sendTransaction exampleSDK (exampleConfig None (Some 5000)) []
       = ([GetUtxosByAddresses ''kaspatest:sender'', GetUtxosByAddresses ''kaspatest:sender'',
           GetFeeEstimate, CreateTransaction, CreateTransactions 4000, SignTransaction,
           SubmitTransaction ''tx1''],
          Inr \<lparr> transactionId = ''tx1'', fee = 3000005000, mass = 1000 \<rparr>)
   \<and> (\<exists>sender before after est.
         estimateFee exampleSDK sender (cfg_to (exampleConfig None (Some 5000)))
           (cfg_amount (exampleConfig None (Some 5000))) ([] @ before) = (after, Inr est)
         \<and> (4000::int) = max 0 (5000 - baseFee est))"
proof -
  have c: "cfg_customTotalFee (exampleConfig None (Some 5000)) = Some 5000"
    by (simp add: exampleConfig_def)
  note run = example_sendTransaction_customTotalFee
  from customTotalFee_backsolved[OF c run] obtain new where new:
    "[GetUtxosByAddresses ''kaspatest:sender'', GetUtxosByAddresses ''kaspatest:sender'',
      GetFeeEstimate, CreateTransaction, CreateTransactions 4000, SignTransaction,
      SubmitTransaction ''tx1''] = [] @ new"
    "\<forall>p. CreateTransactions p \<in> set new \<longrightarrow>
        (\<exists>sender before after est rest.
            estimateFee exampleSDK sender (cfg_to (exampleConfig None (Some 5000)))
              (cfg_amount (exampleConfig None (Some 5000))) ([] @ before) = (after, Inr est)
            \<and> [GetUtxosByAddresses ''kaspatest:sender'',
                GetUtxosByAddresses ''kaspatest:sender'', GetFeeEstimate, CreateTransaction,
                CreateTransactions 4000, SignTransaction, SubmitTransaction ''tx1'']
               = after @ rest
            \<and> p = max 0 (5000 - baseFee est)
            \<and> (baseFee est \<le> 5000 \<longrightarrow> p = 5000 - baseFee est)
            \<and> (5000 < baseFee est \<longrightarrow> p = 0))"
    by blast
  from new(1) have "CreateTransactions 4000 \<in> set new" by auto
  with new(2) have "\<exists>sender before after est.
         estimateFee exampleSDK sender (cfg_to (exampleConfig None (Some 5000)))
           (cfg_amount (exampleConfig None (Some 5000))) ([] @ before) = (after, Inr est)
         \<and> (4000::int) = max 0 (5000 - baseFee est)"
    by blast
  with c run show ?thesis by blast
qed

subsection \<open>Named fee tiers\<close>

text \<open>
  In the handlers a custom fee is handed to the SDK as the total fee and a tier or legacy
  fee as the priority fee (lines 860-861 and 1248-1249).
\<close>

lemma sendConfig_fee_fields:
  "truthy (arg_customFee args) \<Longrightarrow>
     cfg_customTotalFee (sendConfig args k a v) = Some v \<and>
     cfg_priorityFee (sendConfig args k a v) = None"
  "\<not> truthy (arg_customFee args) \<Longrightarrow>
     cfg_customTotalFee (sendConfig args k a v) = None \<and>
     cfg_priorityFee (sendConfig args k a v) = Some v"
  by (simp_all add: sendConfig_def)

text \<open>
  Without a custom (or legacy) fee both handlers ask for the tier fee of the base fee
  they have just had estimated.
\<close>

lemma sendTransactionFee_tier:
  assumes "\<not> truthy (arg_customFee args)"
    and "\<not> (truthy (arg_priorityFee args) \<and> arg_priorityFee args \<noteq> Some ''0'')"
    and "sendTransactionFee sdk w kaspaToSompi args amountSompi t = (t', Inr v)"
  shows "\<exists>sender t1 est.
           estimateFee sdk sender (arg_to args) amountSompi t1 = (t', Inr est)
           \<and> priorityFeeForTier (feePriorityOf args) (baseFee est) = Inr v"
  using assms
  by (auto simp: sendTransactionFee_def io_defs split: if_splits sum.splits prod.splits)

lemma sendFromWalletFee_tier:
  assumes "\<not> truthy (arg_customFee args)"
    and "sendFromWalletFee sdk kaspaToSompi args senderAddress amountSompi t = (t', Inr v)"
  shows "\<exists>est.
           estimateFee sdk senderAddress (arg_to args) amountSompi t = (t', Inr est)
           \<and> priorityFeeForTier (feePriorityOf args) (baseFee est) = Inr v"
  using assms
  by (auto simp: sendFromWalletFee_def io_defs split: if_splits sum.splits prod.splits)

text \<open>
  The base fee of an estimate is \<^verbatim>\<open>BigInt(Math.ceil(x))\<close> of a binary64 number, so
  \<^verbatim>\<open>Number\<close> gives it back unchanged, and the tier fee both handlers compute is the base
  fee times the multiplier of the tier, rounded up.
\<close>

lemma estimateFee_baseFee:
  assumes "estimateFee sdk a r m t = (t', Inr est)"
  shows "\<exists>rate m'. BigInt (Math_ceil (jsTimes rate (Number m'))) = Inr (baseFee est)"
  using assms
  by (auto simp: estimateFee_def io_defs Let_def split: if_splits sum.splits prod.splits)
    blast

lemma estimateFee_baseFee_exact:
  assumes "estimateFee sdk a r m t = (t', Inr est)"
  shows "Number (baseFee est) = Fin (of_int (baseFee est))"
proof -
  from estimateFee_baseFee[OF assms] obtain rate m' where
    "BigInt (Math_ceil (jsTimes rate (Number m'))) = Inr (baseFee est)" by blast
  from BigInt_ceil_Inr[OF this] obtain v where
    v: "jsTimes rate (Number m') = Fin v" "baseFee est = \<lceil>v\<rceil>" by blast
  from jsTimes_Fin[OF v(1)] have "toBinary64 v = Fin v" .
  from toBinary64_ceiling[OF this] show ?thesis
    by (simp add: Number_def v(2))
qed

lemma priorityFeeForTier_Inr:
  assumes "Number b = Fin (of_int b)" and "priorityFeeForTier feePriority b = Inr v"
  shows "v = \<lceil>of_int b * feeMultiplier feePriority\<rceil>"
  using assms(2) unfolding priorityFeeForTier_value[OF assms(1)]
  by (simp split: if_splits)

lemma sendTransactionFee_tier_value:
  assumes "\<not> truthy (arg_customFee args)"
    and "\<not> (truthy (arg_priorityFee args) \<and> arg_priorityFee args \<noteq> Some ''0'')"
    and "sendTransactionFee sdk w kaspaToSompi args amountSompi t = (t', Inr v)"
  shows "\<exists>sender t1 est.
           estimateFee sdk sender (arg_to args) amountSompi t1 = (t', Inr est)
           \<and> v = \<lceil>of_int (baseFee est) * feeMultiplier (feePriorityOf args)\<rceil>"
proof -
  from sendTransactionFee_tier[OF assms] obtain sender t1 est where
    est: "estimateFee sdk sender (arg_to args) amountSompi t1 = (t', Inr est)"
    and v: "priorityFeeForTier (feePriorityOf args) (baseFee est) = Inr v" by blast
  from priorityFeeForTier_Inr[OF estimateFee_baseFee_exact[OF est] v] est show ?thesis
    by blast
qed

lemma sendFromWalletFee_tier_value:
  assumes "\<not> truthy (arg_customFee args)"
    and "sendFromWalletFee sdk kaspaToSompi args senderAddress amountSompi t = (t', Inr v)"
  shows "\<exists>est.
           estimateFee sdk senderAddress (arg_to args) amountSompi t = (t', Inr est)
           \<and> v = \<lceil>of_int (baseFee est) * feeMultiplier (feePriorityOf args)\<rceil>"
proof -
  from sendFromWalletFee_tier[OF assms] obtain est where
    est: "estimateFee sdk senderAddress (arg_to args) amountSompi t = (t', Inr est)"
    and v: "priorityFeeForTier (feePriorityOf args) (baseFee est) = Inr v" by blast
  from priorityFeeForTier_Inr[OF estimateFee_baseFee_exact[OF est] v] est show ?thesis
    by blast
qed

lemma sendTransaction_priorityFee_log:
  assumes "cfg_customTotalFee config = None"
    and "sendTransaction sdk config t = (t', res)"
  shows "\<exists>new. t' = t @ new
     \<and> (\<forall>q. CreateTransactions q \<in> set new \<longrightarrow>
           q = (case cfg_priorityFee config of None \<Rightarrow> 0 | Some p \<Rightarrow> p))
     \<and> ((\<exists>r. res = Inr r) \<longrightarrow>
           CreateTransactions (case cfg_priorityFee config of None \<Rightarrow> 0 | Some p \<Rightarrow> p)
             \<in> set new)"
proof -
  define p where "p = (case cfg_priorityFee config of None \<Rightarrow> 0 | Some p \<Rightarrow> p)"
  show ?thesis
  proof (cases "rpcClient sdk")
    case False
    with assms show ?thesis by (auto simp: sendTransaction_def io_defs)
  next
    case True
    obtain t1 r1 where key: "senderKey sdk (cfg_from config) t = (t1, r1)"
      by (cases "senderKey sdk (cfg_from config) t")
    from senderKey_log[OF key] obtain n1 where n1:
      "t1 = t @ n1" "\<forall>q. CreateTransactions q \<notin> set n1" by blast
    show ?thesis
    proof (cases r1)
      case (Inl e)
      with assms True key n1 show ?thesis by (auto simp: sendTransaction_def io_defs)
    next
      case (Inr k)
      define a where "a = toAddress k (networkType sdk)"
      show ?thesis
      proof (cases "getUtxosByAddresses sdk t1 a")
        case (Inl e)
        with assms True key Inr n1 show ?thesis
          by (auto simp: sendTransaction_def io_defs a_def Let_def)
      next
        case utxos: (Inr utxos)
        show ?thesis
        proof (cases "utxos = []")
          case True
          with assms \<open>rpcClient sdk\<close> key Inr utxos n1 show ?thesis
            by (auto simp: sendTransaction_def io_defs a_def Let_def)
        next
          case False
          with assms \<open>rpcClient sdk\<close> key Inr utxos have tail:
            "buildSignSubmit sdk config k a utxos p (t1 @ [GetUtxosByAddresses a]) = (t', res)"
            by (simp add: sendTransaction_def io_defs a_def p_def Let_def)
          from buildSignSubmit_log[OF tail] obtain n4 where n4:
            "t' = (t1 @ [GetUtxosByAddresses a]) @ n4"
            "\<forall>q. CreateTransactions q \<in> set n4 \<longrightarrow> q = p"
            "(\<exists>r. res = Inr r) \<longrightarrow> CreateTransactions p \<in> set n4"
            by blast
          show ?thesis
            unfolding p_def[symmetric]
            using n1 n4 by (intro exI[of _ "n1 @ [GetUtxosByAddresses a] @ n4"]) auto
        qed
      qed
    qed
  qed
qed

lemma sendTransactionFee_tier_estimate:
  assumes "\<not> truthy (arg_customFee args)"
    and "\<not> (truthy (arg_priorityFee args) \<and> arg_priorityFee args \<noteq> Some ''0'')"
    and "sendTransactionFee sdk w kaspaToSompi args amountSompi t = (t', Inr v)"
  shows "\<exists>sender before est.
           estimateFee sdk sender (arg_to args) amountSompi (t @ before) = (t', Inr est)
           \<and> v = \<lceil>of_int (baseFee est) * feeMultiplier (feePriorityOf args)\<rceil>"
proof -
  obtain t1 r1 where s: "(if truthy (arg_from args) then succeed (the (arg_from args))
                 else andThen (getReceivePrivateKey w 0)
                        (\<lambda>privKey. succeed (toAddress privKey (networkType sdk)))) t = (t1, r1)"
    by (metis surj_pair)
  then obtain before where b: "t1 = t @ before"
    by (auto simp: getReceivePrivateKey_def io_defs split: if_splits sum.splits)
  from assms s obtain sender est where
    est: "estimateFee sdk sender (arg_to args) amountSompi t1 = (t', Inr est)"
    and v: "priorityFeeForTier (feePriorityOf args) (baseFee est) = Inr v"
    by (auto simp: sendTransactionFee_def andThen_def lift_def split: sum.splits prod.splits)
  from priorityFeeForTier_Inr[OF estimateFee_baseFee_exact[OF est] v] est b show ?thesis
    by blast
qed

text \<open>
  So in every send request at a named tier, whatever the session and the engine, each
  generator call is given the tier fee of the estimate made earlier in the same request
  as its priority fee.
\<close>

lemma handleSendTransaction_tier_request:
  assumes tier: "\<not> truthy (arg_customFee args)"
      "\<not> (truthy (arg_priorityFee args) \<and> arg_priorityFee args \<noteq> Some ''0'')"
    and sdk: "sdks (normalizeSessionId (arg_sessionId args)) = Some sdk"
    and run: "handleSendTransaction sdks wallets kaspaToSompi args t = (t', res)"
  shows "\<exists>new. t' = t @ new \<and>
     (\<forall>p. CreateTransactions p \<in> set new \<longrightarrow>
        (\<exists>sender before after est amountSompi rest.
            estimateFee sdk sender (arg_to args) amountSompi (t @ before) = (after, Inr est)
            \<and> t' = after @ rest
            \<and> p = \<lceil>of_int (baseFee est) * feeMultiplier (feePriorityOf args)\<rceil>))"
proof (cases "wallets (normalizeSessionId (arg_sessionId args))")
  case None
  with sdk run have "t' = t" by (simp add: handleSendTransaction_def)
  then show ?thesis by simp
next
  case (Some w)
  show ?thesis
  proof (cases "validateAmount (arg_amount args)")
    case (Inl e)
    with sdk Some run have "t' = t"
      by (auto simp: handleSendTransaction_def catchAll_def io_defs)
    then show ?thesis by simp
  next
    case amt: (Inr amountStr)
    show ?thesis
    proof (cases "kasToSompi kaspaToSompi amountStr")
      case (Inl e)
      with sdk Some amt run have "t' = t"
        by (auto simp: handleSendTransaction_def catchAll_def io_defs)
      then show ?thesis by simp
    next
      case sompi: (Inr amountSompi)
      obtain t1 r1 where f: "sendTransactionFee sdk w kaspaToSompi args amountSompi t = (t1, r1)"
        by (metis surj_pair)
      from sendTransactionFee_log[OF f] obtain n1 where n1:
        "t1 = t @ n1" "\<forall>p. CreateTransactions p \<notin> set n1" by blast
      show ?thesis
      proof (cases r1)
        case (Inl e)
        with sdk Some amt sompi f run have "t' = t1"
          by (auto simp: handleSendTransaction_def catchAll_def io_defs)
        with n1 show ?thesis by auto
      next
        case fee: (Inr v)
        from sendTransactionFee_tier_estimate[OF tier f[unfolded fee]]
        obtain sender before est where
          est: "estimateFee sdk sender (arg_to args) amountSompi (t @ before) = (t1, Inr est)"
          and v: "v = \<lceil>of_int (baseFee est) * feeMultiplier (feePriorityOf args)\<rceil>"
          by blast
        obtain t2 r2 where k: "(if truthy (arg_from args)
                         then andThen (findSenderKey w (networkType sdk) (the (arg_from args)) 0 10)
                                (\<lambda>found. case found of
                                           None \<Rightarrow> raise (AddressNotFoundInWallet (the (arg_from args)))
                                         | Some privKey \<Rightarrow> succeed privKey)
                         else getReceivePrivateKey w 0) t1 = (t2, r2)"
          by (metis surj_pair)
        have n2: "\<exists>new. t2 = t1 @ new \<and> (\<forall>p. CreateTransactions p \<notin> set new)"
        proof (cases "truthy (arg_from args)")
          case True
          obtain t3 r3 where fs:
            "findSenderKey w (networkType sdk) (the (arg_from args)) 0 10 t1 = (t3, r3)"
            by (metis surj_pair)
          with k True have "t2 = t3"
            by (auto simp: io_defs split: sum.splits option.splits)
          with findSenderKey_log[OF fs] show ?thesis by simp
        next
          case False
          with k show ?thesis by (auto simp: getReceivePrivateKey_def io_defs)
        qed
        then obtain n2 where n2: "t2 = t1 @ n2" "\<forall>p. CreateTransactions p \<notin> set n2"
          by blast
        show ?thesis
        proof (cases r2)
          case (Inl e)
          with sdk Some amt sompi f fee k run have "t' = t2"
            by (auto simp: handleSendTransaction_def catchAll_def io_defs)
          with n1 n2 show ?thesis by auto
        next
          case key: (Inr senderPrivateKey)
          obtain t3 r3 where snd:
            "sendTransaction sdk (sendConfig args senderPrivateKey amountSompi v) t2 = (t3, r3)"
            by (metis surj_pair)
          with sdk Some amt sompi f fee k key run have t3: "t' = t3"
            by (auto simp: handleSendTransaction_def catchAll_def io_defs split: sum.splits)
          from sendConfig_fee_fields(2)[OF tier(1), of senderPrivateKey amountSompi v]
          have cfg: "cfg_customTotalFee (sendConfig args senderPrivateKey amountSompi v) = None"
            "cfg_priorityFee (sendConfig args senderPrivateKey amountSompi v) = Some v"
            by simp_all
          from sendTransaction_priorityFee_log[OF cfg(1) snd] obtain n3 where n3:
            "t3 = t2 @ n3" "\<forall>q. CreateTransactions q \<in> set n3 \<longrightarrow> q = v"
            by (auto simp: cfg(2))
          have log: "t' = t @ (n1 @ n2 @ n3)" "t' = t1 @ (n2 @ n3)"
            using n1(1) n2(1) n3(1) t3 by simp_all
          have "p = v" if "CreateTransactions p \<in> set (n1 @ n2 @ n3)" for p
            using that n1(2) n2(2) n3(2) by auto
          with est v log show ?thesis
            by (intro exI[of _ "n1 @ n2 @ n3"]) blast
        qed
      qed
    qed
  qed
qed


lemma handleSendFromWallet_tier_request:
  assumes tier: "\<not> truthy (arg_customFee args)"
    and sdk: "sdks (normalizeSessionId (arg_sessionId args)) = Some sdk"
    and run: "handleSendFromWallet sdks wallets kaspaToSompi args t = (t', res)"
  shows "\<exists>new. t' = t @ new \<and>
     (\<forall>p. CreateTransactions p \<in> set new \<longrightarrow>
        (\<exists>sender before after est amountSompi rest.
            estimateFee sdk sender (arg_to args) amountSompi (t @ before) = (after, Inr est)
            \<and> t' = after @ rest
            \<and> p = \<lceil>of_int (baseFee est) * feeMultiplier (feePriorityOf args)\<rceil>))"
proof (cases "wallets (normalizeSessionId (arg_sessionId args))")
  case None
  with sdk run have "t' = t" by (simp add: handleSendFromWallet_def)
  then show ?thesis by simp
next
  case (Some w)
  show ?thesis
  proof (cases "validateAmount (arg_amount args)")
    case (Inl e)
    with sdk Some run have "t' = t"
      by (auto simp: handleSendFromWallet_def catchAll_def io_defs)
    then show ?thesis by simp
  next
    case amt: (Inr amountStr)
    show ?thesis
    proof (cases "kasToSompi kaspaToSompi amountStr")
      case (Inl e)
      with sdk Some amt run have "t' = t"
        by (auto simp: handleSendFromWallet_def catchAll_def io_defs)
      then show ?thesis by simp
    next
      case sompi: (Inr amountSompi)
      define i where "i = (case arg_addressIndex args of None \<Rightarrow> 0 | Some i \<Rightarrow> i)"
      define t0 where "t0 = t @ [DeriveReceiveKey i]"
      obtain r0 where k: "getReceivePrivateKey w i t = (t0, r0)"
        using getReceivePrivateKey_log[of w i t] by (auto simp: t0_def)
      show ?thesis
      proof (cases r0)
        case (Inl e)
        with sdk Some amt sompi k run have "t' = t0"
          by (auto simp: handleSendFromWallet_def catchAll_def io_defs i_def)
        then show ?thesis by (simp add: t0_def)
      next
        case key: (Inr senderPrivateKey)
        define a where "a = toAddress senderPrivateKey (networkType sdk)"
        obtain t1 r1 where f: "sendFromWalletFee sdk kaspaToSompi args a amountSompi t0 = (t1, r1)"
          by (metis surj_pair)
        from sendFromWalletFee_log[OF f] obtain n1 where n1:
          "t1 = t0 @ n1" "\<forall>p. CreateTransactions p \<notin> set n1" by blast
        show ?thesis
        proof (cases r1)
          case (Inl e)
          with sdk Some amt sompi k key f run have "t' = t1"
            by (auto simp: handleSendFromWallet_def catchAll_def io_defs i_def a_def Let_def)
          with n1 show ?thesis by (auto simp: t0_def)
        next
          case fee: (Inr v)
          from sendFromWalletFee_tier_value[OF tier f[unfolded fee]]
          obtain est where
            est: "estimateFee sdk a (arg_to args) amountSompi t0 = (t1, Inr est)"
            and v: "v = \<lceil>of_int (baseFee est) * feeMultiplier (feePriorityOf args)\<rceil>"
            by blast
          obtain t2 r2 where b: "getBalance sdk a t1 = (t2, r2)" by (metis surj_pair)
          from getBalance_log[OF b] obtain n2 where n2:
            "t2 = t1 @ n2" "\<forall>p. CreateTransactions p \<notin> set n2" by blast
          show ?thesis
          proof (cases "\<exists>balance. r2 = Inr balance \<and> \<not> balance < amountSompi + v")
            case False
            with sdk Some amt sompi k key f fee b run have "t' = t2"
              by (auto simp: handleSendFromWallet_def catchAll_def io_defs i_def a_def Let_def
                  split: sum.splits)
            with n1 n2 show ?thesis by (auto simp: t0_def)
          next
            case True
            obtain t3 r3 where snd:
              "sendTransaction sdk (sendConfig args senderPrivateKey amountSompi v) t2 = (t3, r3)"
              by (metis surj_pair)
            with True sdk Some amt sompi k key f fee b run have t3: "t' = t3"
              by (auto simp: handleSendFromWallet_def catchAll_def io_defs i_def a_def Let_def
                  split: sum.splits)
            from sendConfig_fee_fields(2)[OF tier, of senderPrivateKey amountSompi v]
            have cfg: "cfg_customTotalFee (sendConfig args senderPrivateKey amountSompi v) = None"
              "cfg_priorityFee (sendConfig args senderPrivateKey amountSompi v) = Some v"
              by simp_all
            from sendTransaction_priorityFee_log[OF cfg(1) snd] obtain n3 where n3:
              "t3 = t2 @ n3" "\<forall>q. CreateTransactions q \<in> set n3 \<longrightarrow> q = v"
              by (auto simp: cfg(2))
            have log: "t' = t @ (DeriveReceiveKey i # n1 @ n2 @ n3)" "t' = t1 @ (n2 @ n3)"
              using n1(1) n2(1) n3(1) t3 by (simp_all add: t0_def)
            have "p = v" if "CreateTransactions p \<in> set (DeriveReceiveKey i # n1 @ n2 @ n3)" for p
              using that n1(2) n2(2) n3(2) by auto
            with est[unfolded t0_def] v log show ?thesis
              by (intro exI[of _ "DeriveReceiveKey i # n1 @ n2 @ n3"]) blast
          qed
        qed
      qed
    qed
  qed
qed

subsection \<open>A send request at the high tier\<close>

lemma highPriorityArgs_sel:
  "arg_sessionId highPriorityArgs = None" "arg_from highPriorityArgs = None"
  "arg_amount highPriorityArgs = Some ''1''" "arg_customFee highPriorityArgs = None"
  "arg_priorityFee highPriorityArgs = None" "arg_feePriority highPriorityArgs = Some ''high''"
  "arg_to highPriorityArgs = ''kaspatest:recipient''" "arg_payload highPriorityArgs = None"
  "arg_addressIndex highPriorityArgs = None"
  by (simp_all add: highPriorityArgs_def exampleArgs_def)

lemma customFeeArgs_sel:
  "arg_sessionId customFeeArgs = None" "arg_from customFeeArgs = None"
  "arg_amount customFeeArgs = Some ''1''" "arg_customFee customFeeArgs = Some ''0.00002''"
  "arg_priorityFee customFeeArgs = None" "arg_feePriority customFeeArgs = None"
  "arg_to customFeeArgs = ''kaspatest:recipient''" "arg_payload customFeeArgs = None"
  "arg_addressIndex customFeeArgs = None"
  by (simp_all add: customFeeArgs_def exampleArgs_def)

lemma validateAmount_one: "validateAmount (Some ''1'') = Inr ''1''"
  by (simp add: validateAmount_def js_defs Let_def)

lemma kasToSompi_one: "kasToSompi decimalToSompi ''1'' = Inr 100000000"
  by (simp add: kasToSompi_def js_defs Let_def decimalToSompi_def)

lemma customFeeSompi_2000: "customFeeSompi decimalToSompi ''0.00002'' = Inr 2000"
  by (simp add: customFeeSompi_def kasToSompi_def js_defs Let_def decimalToSompi_def)

lemma highPriority_fee:
  "sendTransactionFee exampleSDK exampleWallet decimalToSompi highPriorityArgs a t
   = (t @ [DeriveReceiveKey 0, GetUtxosByAddresses ''kaspatest:sender'', GetFeeEstimate,
           CreateTransaction], Inr 2000)"
  by (simp add: sendTransactionFee_def truthy_def highPriorityArgs_sel exampleWallet_key0
      exampleKey_address example_estimateFee priorityFeeForTier_high_1000
      feePriorityOf_def io_defs)

lemma highPriority_walletFee:
  "sendFromWalletFee exampleSDK decimalToSompi highPriorityArgs ''kaspatest:sender'' a t
   = (t @ [GetUtxosByAddresses ''kaspatest:sender'', GetFeeEstimate, CreateTransaction],
      Inr 2000)"
  by (simp add: sendFromWalletFee_def truthy_def highPriorityArgs_sel example_estimateFee
      priorityFeeForTier_high_1000 feePriorityOf_def io_defs)

lemma example_getBalance:
  "getBalance exampleSDK a t
   = (t @ [GetBalanceByAddress a, GetUtxosByAddresses a], Inr 8000000000)"
  by (simp add: getBalance_def io_defs exampleSDK_def)

lemma example_sendTransaction_custom:
  "sendTransaction exampleSDK
      \<lparr> cfg_from = FromKey exampleKey, cfg_to = r, cfg_amount = a, cfg_priorityFee = None,
        cfg_customTotalFee = Some 2000, cfg_payload = pl, cfg_changeAddress = None \<rparr> t
   = (t @ [GetUtxosByAddresses ''kaspatest:sender'', GetUtxosByAddresses ''kaspatest:sender'',
           GetFeeEstimate, CreateTransaction, CreateTransactions 1000, SignTransaction,
           SubmitTransaction ''tx1''],
      Inr \<lparr> transactionId = ''tx1'', fee = 3000002000, mass = 1000 \<rparr>)"
proof -
  have key: "senderKey exampleSDK (FromKey exampleKey) t = (t, Inr exampleKey)"
    by (simp add: senderKey_def io_defs)
  have utxos: "getUtxosByAddresses exampleSDK t' x = Inr [utxoOf 5000000000, utxoOf 3000000000]"
    for t' x
    by (simp add: exampleSDK_def)
  have build: "buildSignSubmit exampleSDK
      \<lparr> cfg_from = FromKey exampleKey, cfg_to = r, cfg_amount = a, cfg_priorityFee = None,
        cfg_customTotalFee = Some 2000, cfg_payload = pl, cfg_changeAddress = None \<rparr>
      exampleKey ''kaspatest:sender'' [utxoOf 5000000000, utxoOf 3000000000] 1000 t'
    = (t' @ [CreateTransactions 1000, SignTransaction, SubmitTransaction ''tx1''],
       Inr \<lparr> transactionId = ''tx1'', fee = 3000002000, mass = 1000 \<rparr>)" for t'
    by (simp add: buildSignSubmit_def io_defs exampleSDK_def utxoOf_def Let_def)
  show ?thesis
    by (simp add: sendTransaction_def sendTransactionWithCustomFee_def key utxos build
        exampleSDK_sel exampleKey_address example_estimateFee io_defs Let_def)
qed

lemma example_recommendations:
  "handleGetFeeRecommendations [''default'' \<mapsto> exampleSDK] decimalToSompi recommendArgs []
     = ([GetUtxosByAddresses ''kaspatest:sender'', GetFeeEstimate, CreateTransaction],
        Inr \<lparr> lowFee = 500, normalFee = 1000, highFee = 2000, minimumFee = 1000 \<rparr>)"
  by (simp add: handleGetFeeRecommendations_def defaultSessionId_def recommendArgs_def
      catchAll_def validateAmount_one kasToSompi_one example_estimateFee Number_def
      toBinary64_numeral Math_ceil_def Math_max_def BigInt_def io_defs)

text \<open>
  Claim C3 takes the tier fee, base fee times multiplier, for the target total fee of the
  transaction. Both send handlers compute that number, 2000 for \<open>high\<close> on a base fee of
  1000, and \<^verbatim>\<open>handleGetFeeRecommendations\<close> quotes it as the fee of the tier. But they
  hand it to the SDK in the \<^verbatim>\<open>priorityFee\<close> field (lines 861 and 1249), which the
  generator adds to the base fee it computes itself: the generator is called with a
  priority fee of 2000 and the transaction it builds pays 3000 (its inputs less its
  outputs). The same 2000 given as a custom total fee reaches the generator as 1000.
\<close>

theorem high_tier_fee_sent_as_priority_fee:
  "handleGetFeeRecommendations [''default'' \<mapsto> exampleSDK] decimalToSompi recommendArgs []
     = ([GetUtxosByAddresses ''kaspatest:sender'', GetFeeEstimate, CreateTransaction],
        Inr \<lparr> lowFee = 500, normalFee = 1000, highFee = 2000, minimumFee = 1000 \<rparr>)
   \<and> handleSendTransaction [''default'' \<mapsto> exampleSDK] [''default'' \<mapsto> exampleWallet]
       decimalToSompi highPriorityArgs []
     = ([DeriveReceiveKey 0, GetUtxosByAddresses ''kaspatest:sender'', GetFeeEstimate,
         CreateTransaction, DeriveReceiveKey 0, GetUtxosByAddresses ''kaspatest:sender'',
         CreateTransactions 2000, SignTransaction, SubmitTransaction ''tx1''],
        Inr \<lparr> transactionId = ''tx1'', fee = 3000003000, mass = 1000 \<rparr>)
   \<and> handleSendFromWallet [''default'' \<mapsto> exampleSDK] [''default'' \<mapsto> exampleWallet]
       decimalToSompi highPriorityArgs []
     = ([DeriveReceiveKey 0, GetUtxosByAddresses ''kaspatest:sender'', GetFeeEstimate,
         CreateTransaction, GetBalanceByAddress ''kaspatest:sender'',
         GetUtxosByAddresses ''kaspatest:sender'', GetUtxosByAddresses ''kaspatest:sender'',
         CreateTransactions 2000, SignTransaction, SubmitTransaction ''tx1''],
        Inr \<lparr> transactionId = ''tx1'', fee = 3000003000, mass = 1000 \<rparr>)
   \<and> createTransactions exampleSDK t [utxoOf 5000000000, utxoOf 3000000000]
        ''kaspatest:recipient'' 100000000 ''kaspatest:sender'' 2000 None
       = Inr [\<lparr> txid = ''tx1'', inputs = [utxoOf 5000000000],
                 outputs = [100000000, 4899997000] \<rparr>]
   \<and> sumAmounts (inputs \<lparr> txid = ''tx1'', inputs = [utxoOf 5000000000],
                            outputs = [100000000, 4899997000] \<rparr>)
       - sum_list (outputs \<lparr> txid = ''tx1'', inputs = [utxoOf 5000000000],
                              outputs = [100000000, 4899997000] \<rparr>) = 3000
   \<and> handleSendTransaction [''default'' \<mapsto> exampleSDK] [''default'' \<mapsto> exampleWallet]
       decimalToSompi customFeeArgs []
     = ([DeriveReceiveKey 0, GetUtxosByAddresses ''kaspatest:sender'',
         GetUtxosByAddresses ''kaspatest:sender'', GetFeeEstimate, CreateTransaction,
         CreateTransactions 1000, SignTransaction, SubmitTransaction ''tx1''],
        Inr \<lparr> transactionId = ''tx1'', fee = 3000002000, mass = 1000 \<rparr>)"
proof -
  note r = example_recommendations
  have a: "handleSendTransaction [''default'' \<mapsto> exampleSDK] [''default'' \<mapsto> exampleWallet]
       decimalToSompi highPriorityArgs []
     = ([DeriveReceiveKey 0, GetUtxosByAddresses ''kaspatest:sender'', GetFeeEstimate,
         CreateTransaction, DeriveReceiveKey 0, GetUtxosByAddresses ''kaspatest:sender'',
         CreateTransactions 2000, SignTransaction, SubmitTransaction ''tx1''],
        Inr \<lparr> transactionId = ''tx1'', fee = 3000003000, mass = 1000 \<rparr>)"
    by (simp add: handleSendTransaction_def normalizeSessionId_def catchAll_def
        validateAmount_one kasToSompi_one highPriority_fee exampleWallet_key0
        example_sendTransaction sendConfig_def truthy_def highPriorityArgs_sel io_defs)
  have b: "handleSendFromWallet [''default'' \<mapsto> exampleSDK] [''default'' \<mapsto> exampleWallet]
       decimalToSompi highPriorityArgs []
     = ([DeriveReceiveKey 0, GetUtxosByAddresses ''kaspatest:sender'', GetFeeEstimate,
         CreateTransaction, GetBalanceByAddress ''kaspatest:sender'',
         GetUtxosByAddresses ''kaspatest:sender'', GetUtxosByAddresses ''kaspatest:sender'',
         CreateTransactions 2000, SignTransaction, SubmitTransaction ''tx1''],
        Inr \<lparr> transactionId = ''tx1'', fee = 3000003000, mass = 1000 \<rparr>)"
    by (simp add: handleSendFromWallet_def normalizeSessionId_def catchAll_def
        validateAmount_one kasToSompi_one highPriority_walletFee exampleWallet_key0
        exampleKey_address exampleSDK_sel example_getBalance example_sendTransaction
        sendConfig_def truthy_def highPriorityArgs_sel io_defs Let_def)
  have c: "createTransactions exampleSDK t [utxoOf 5000000000, utxoOf 3000000000]
        ''kaspatest:recipient'' 100000000 ''kaspatest:sender'' 2000 None
       = Inr [\<lparr> txid = ''tx1'', inputs = [utxoOf 5000000000],
                 outputs = [100000000, 4899997000] \<rparr>]"
    by (simp add: exampleSDK_def)
  have d: "sumAmounts (inputs \<lparr> txid = ''tx1'', inputs = [utxoOf 5000000000],
                            outputs = [100000000, 4899997000] \<rparr>)
       - sum_list (outputs \<lparr> txid = ''tx1'', inputs = [utxoOf 5000000000],
                              outputs = [100000000, 4899997000] \<rparr>) = 3000"
    by (simp add: utxoOf_def)
  have e: "handleSendTransaction [''default'' \<mapsto> exampleSDK] [''default'' \<mapsto> exampleWallet]
       decimalToSompi customFeeArgs []
     = ([DeriveReceiveKey 0, GetUtxosByAddresses ''kaspatest:sender'',
         GetUtxosByAddresses ''kaspatest:sender'', GetFeeEstimate, CreateTransaction,
         CreateTransactions 1000, SignTransaction, SubmitTransaction ''tx1''],
        Inr \<lparr> transactionId = ''tx1'', fee = 3000002000, mass = 1000 \<rparr>)"
    by (simp add: handleSendTransaction_def normalizeSessionId_def catchAll_def
        validateAmount_one kasToSompi_one sendTransactionFee_def customFeeSompi_2000
        exampleWallet_key0 example_sendTransaction_custom sendConfig_def truthy_def
        customFeeArgs_sel io_defs)
  from r a b c d e show ?thesis by (simp only:)
qed

subsection \<open>The fee reported to the caller\<close>

lemma buildSignSubmit_fee:
  "buildSignSubmit sdk config k a us p t = (t', Inr r) \<Longrightarrow>
   \<exists>pendingTx others signedTx.
      createTransactions sdk t us (cfg_to config) (cfg_amount config)
         (case cfg_changeAddress config of Some c \<Rightarrow> c | None \<Rightarrow> a) p (cfg_payload config)
        = Inr (pendingTx # others)
      \<and> signTransaction sdk (t @ [CreateTransactions p]) pendingTx k = Inr signedTx
      \<and> transactionId r = txid signedTx
      \<and> fee r = sumAmounts us - sum_list (outputs signedTx)"
  by (auto simp: buildSignSubmit_def io_defs Let_def split: sum.splits prod.splits list.splits)

lemma sendTransactionWithCustomFee_fee:
  assumes "sendTransactionWithCustomFee sdk config c t = (t', Inr r)"
  shows "\<exists>k t1 t2 t3 utxos p chg pendingTx others signedTx.
      getUtxosByAddresses sdk t1 (toAddress k (networkType sdk)) = Inr utxos
      \<and> createTransactions sdk t2 utxos (cfg_to config) (cfg_amount config) chg p
           (cfg_payload config) = Inr (pendingTx # others)
      \<and> signTransaction sdk t3 pendingTx k = Inr signedTx
      \<and> transactionId r = txid signedTx
      \<and> fee r = sumAmounts utxos - sum_list (outputs signedTx)"
proof -
  from assms obtain k t1 utxos t2 p where
    "getUtxosByAddresses sdk t1 (toAddress k (networkType sdk)) = Inr utxos"
    "buildSignSubmit sdk config k (toAddress k (networkType sdk)) utxos p t2 = (t', Inr r)"
    by (auto simp: sendTransactionWithCustomFee_def io_defs Let_def
        split: if_splits sum.splits prod.splits)
  with buildSignSubmit_fee[OF this(2)] show ?thesis by blast
qed

lemma sendTransaction_fee:
  assumes "sendTransaction sdk config t = (t', Inr r)"
  shows "\<exists>k t1 t2 t3 utxos p chg pendingTx others signedTx.
      getUtxosByAddresses sdk t1 (toAddress k (networkType sdk)) = Inr utxos
      \<and> createTransactions sdk t2 utxos (cfg_to config) (cfg_amount config) chg p
           (cfg_payload config) = Inr (pendingTx # others)
      \<and> signTransaction sdk t3 pendingTx k = Inr signedTx
      \<and> transactionId r = txid signedTx
      \<and> fee r = sumAmounts utxos - sum_list (outputs signedTx)"
proof (cases "cfg_customTotalFee config")
  case (Some c)
  with assms have "sendTransactionWithCustomFee sdk config c t = (t', Inr r)"
    by (simp add: sendTransaction_def)
  then show ?thesis by (rule sendTransactionWithCustomFee_fee)
next
  case None
  with assms obtain k t1 utxos t2 p where
    "getUtxosByAddresses sdk t1 (toAddress k (networkType sdk)) = Inr utxos"
    "buildSignSubmit sdk config k (toAddress k (networkType sdk)) utxos p t2 = (t', Inr r)"
    by (auto simp: sendTransaction_def io_defs Let_def
        split: if_splits sum.splits prod.splits)
  with buildSignSubmit_fee[OF this(2)] show ?thesis by blast
qed

text \<open>
  So the reported fee is the total of \<^emph>\<open>all\<close> entries fetched for the sender minus the
  outputs of the signed transaction. Claim C6 asks for the inputs of the signed
  transaction instead, and the source's own comment says "actual transaction
  inputs/outputs". The two agree only if the generator spends every fetched entry. In
  the worked example the sender holds 50 and 30 KAS, the generator spends the 50 KAS
  entry and pays a fee of 1000 sompi (inputs minus outputs of the signed transaction),
  and the caller is told 3000001000 sompi: the unspent 30 KAS entry is counted as fee.
\<close>

theorem sendTransaction_fee_counts_unspent_entries:
  "sendTransaction exampleSDK (exampleConfig (Some 0) None) []
     = ([GetUtxosByAddresses ''kaspatest:sender'', CreateTransactions 0, SignTransaction,
         SubmitTransaction ''tx1''],
        Inr \<lparr> transactionId = ''tx1'', fee = 3000001000, mass = 1000 \<rparr>)
   \<and> createTransactions exampleSDK [GetUtxosByAddresses ''kaspatest:sender'']
        [utxoOf 5000000000, utxoOf 3000000000] ''kaspatest:recipient'' 100000000
        ''kaspatest:sender'' 0 None
       = Inr [\<lparr> txid = ''tx1'', inputs = [utxoOf 5000000000],
                 outputs = [100000000, 4899999000] \<rparr>]
   \<and> sumAmounts (inputs \<lparr> txid = ''tx1'', inputs = [utxoOf 5000000000],
                            outputs = [100000000, 4899999000] \<rparr>)
       - sum_list (outputs \<lparr> txid = ''tx1'', inputs = [utxoOf 5000000000],
                              outputs = [100000000, 4899999000] \<rparr>) = 1000"
  using example_sendTransaction[of "''kaspatest:recipient''" 100000000 0 None "[]"]
  by (simp add: exampleConfig_def exampleSDK_def utxoOf_def)

subsection \<open>Amount validation\<close>

lemma validateAmount_fails_iff:
  "(\<exists>e. validateAmount amt = Inl e) \<longleftrightarrow>
     \<not> truthy amt \<or> amt = Some ''0'' \<or> isNaN (parseFloat (trim (the amt)))"
  by (auto simp: validateAmount_def Let_def)

lemma validateAmount_Inr: "validateAmount amt = Inr a \<Longrightarrow> a = trim (the amt)"
  by (auto simp: validateAmount_def Let_def split: if_splits)

lemma kasToSompi_negative:
  "ltZero (parseFloat (trim a)) \<Longrightarrow> kasToSompi kaspaToSompi a = Inl (InvalidKASAmount a)"
  by (simp add: kasToSompi_def Let_def)

text \<open>
  An amount that is missing, empty, the string \<open>0\<close>, not a number, or below zero
  makes \<^verbatim>\<open>handleSendTransaction\<close> and \<^verbatim>\<open>handleSendFromWallet\<close> fail with an
  invalid-amount error and leaves the log of engine calls as it was.
\<close>

lemma handleSendTransaction_rejects_amount:
  assumes "sdks (normalizeSessionId (arg_sessionId args)) = Some sdk"
    and "wallets (normalizeSessionId (arg_sessionId args)) = Some w"
    and "\<not> truthy (arg_amount args) \<or> arg_amount args = Some ''0''
         \<or> isNaN (parseFloat (trim (the (arg_amount args))))
         \<or> ltZero (parseFloat (trim (the (arg_amount args))))"
  shows "\<exists>e. handleSendTransaction sdks wallets kaspaToSompi args t
               = (t, Inl (InternalError ''Failed to send transaction'' e))
           \<and> e \<in> {InvalidAmountMustBePositive,
                    InvalidAmountFormat (trim (the (arg_amount args))),
                    FailedToConvert (InvalidKASAmount (trim (the (arg_amount args))))}"
proof (cases "validateAmount (arg_amount args)")
  case (Inl e)
  then have "e = InvalidAmountMustBePositive
             \<or> e = InvalidAmountFormat (trim (the (arg_amount args)))"
    by (auto simp: validateAmount_def Let_def split: if_splits)
  with assms(1,2) Inl show ?thesis
    by (auto simp: handleSendTransaction_def catchAll_def io_defs)
next
  case (Inr a)
  then have a: "a = trim (the (arg_amount args))" by (rule validateAmount_Inr)
  from Inr have "\<not> (\<exists>e. validateAmount (arg_amount args) = Inl e)" by simp
  with assms(3) have "ltZero (parseFloat (trim (the (arg_amount args))))"
    unfolding validateAmount_fails_iff by blast
  then have "ltZero (parseFloat (trim a))" by (simp add: a trim_trim)
  then have "kasToSompi kaspaToSompi a = Inl (InvalidKASAmount a)"
    by (rule kasToSompi_negative)
  with assms(1,2) Inr a show ?thesis
    by (simp add: handleSendTransaction_def catchAll_def io_defs)
qed

lemma handleSendFromWallet_rejects_amount:
  assumes "sdks (normalizeSessionId (arg_sessionId args)) = Some sdk"
    and "wallets (normalizeSessionId (arg_sessionId args)) = Some w"
    and "\<not> truthy (arg_amount args) \<or> arg_amount args = Some ''0''
         \<or> isNaN (parseFloat (trim (the (arg_amount args))))
         \<or> ltZero (parseFloat (trim (the (arg_amount args))))"
  shows "\<exists>e. handleSendFromWallet sdks wallets kaspaToSompi args t
               = (t, Inl (InternalError ''Failed to send from wallet'' e))
           \<and> e \<in> {InvalidAmountMustBePositive,
                    InvalidAmountFormat (trim (the (arg_amount args))),
                    FailedToConvert (InvalidKASAmount (trim (the (arg_amount args))))}"
proof (cases "validateAmount (arg_amount args)")
  case (Inl e)
  then have "e = InvalidAmountMustBePositive
             \<or> e = InvalidAmountFormat (trim (the (arg_amount args)))"
    by (auto simp: validateAmount_def Let_def split: if_splits)
  with assms(1,2) Inl show ?thesis
    by (auto simp: handleSendFromWallet_def catchAll_def io_defs)
next
  case (Inr a)
  then have a: "a = trim (the (arg_amount args))" by (rule validateAmount_Inr)
  from Inr have "\<not> (\<exists>e. validateAmount (arg_amount args) = Inl e)" by simp
  with assms(3) have "ltZero (parseFloat (trim (the (arg_amount args))))"
    unfolding validateAmount_fails_iff by blast
  then have "ltZero (parseFloat (trim a))" by (simp add: a trim_trim)
  then have "kasToSompi kaspaToSompi a = Inl (InvalidKASAmount a)"
    by (rule kasToSompi_negative)
  with assms(1,2) Inr a show ?thesis
    by (simp add: handleSendFromWallet_def catchAll_def io_defs)
qed

lemma validateAmount_zero_point_zero: "validateAmount (Some ''0.0'') = Inr ''0.0''"
  by (simp add: validateAmount_def js_defs Let_def)

lemma kasToSompi_zero_point_zero: "kasToSompi decimalToSompi ''0.0'' = Inr 0"
  by (simp add: kasToSompi_def js_defs Let_def decimalToSompi_def)

lemma zeroAmountArgs_sel:
  "arg_sessionId zeroAmountArgs = None" "arg_from zeroAmountArgs = None"
  "arg_amount zeroAmountArgs = Some ''0.0''" "arg_customFee zeroAmountArgs = None"
  "arg_priorityFee zeroAmountArgs = None" "arg_feePriority zeroAmountArgs = None"
  "arg_to zeroAmountArgs = ''kaspatest:recipient''" "arg_payload zeroAmountArgs = None"
  by (simp_all add: zeroAmountArgs_def exampleArgs_def)

lemma priorityFeeForTier_normal_1000: "priorityFeeForTier ''normal'' 1000 = Inr 1000"
  by (simp add: priorityFeeForTier_def Number_def feeMultiplier_def toBinary64_numeral
      Math_ceil_def BigInt_def)

lemma zeroAmount_fee:
  "sendTransactionFee exampleSDK exampleWallet decimalToSompi zeroAmountArgs 0 t
   = (t @ [DeriveReceiveKey 0, GetUtxosByAddresses ''kaspatest:sender'', GetFeeEstimate,
           CreateTransaction], Inr 1000)"
  by (simp add: sendTransactionFee_def truthy_def zeroAmountArgs_sel exampleWallet_key0
      exampleKey_address example_estimateFee priorityFeeForTier_normal_1000
      feePriorityOf_def io_defs)

text \<open>
  Claim C4 asks the same of every amount that is not above zero, and so of every other
  way of writing zero; there the code does not fail. For the amount \<open>0.0\<close> the check
  against the string \<open>0\<close> does not fire, \<^verbatim>\<open>parseFloat\<close> gives a number, and
  \<^verbatim>\<open>kasToSompi\<close> only refuses values below zero, so the request goes on with an amount
  of 0 sompi: the fee is estimated over the network and the transaction is built and
  submitted.
\<close>

theorem handleSendTransaction_zero_amount_reaches_network:
  "handleSendTransaction [''default'' \<mapsto> exampleSDK] [''default'' \<mapsto> exampleWallet]
       decimalToSompi zeroAmountArgs []
   = ([DeriveReceiveKey 0, GetUtxosByAddresses ''kaspatest:sender'', GetFeeEstimate,
       CreateTransaction, DeriveReceiveKey 0, GetUtxosByAddresses ''kaspatest:sender'',
       CreateTransactions 1000, SignTransaction, SubmitTransaction ''tx1''],
      Inr \<lparr> transactionId = ''tx1'', fee = 3000002000, mass = 1000 \<rparr>)
   \<and> isNetworkCall (GetUtxosByAddresses ''kaspatest:sender'')"
  by (simp add: handleSendTransaction_def normalizeSessionId_def catchAll_def
      validateAmount_zero_point_zero kasToSompi_zero_point_zero zeroAmount_fee
      exampleWallet_key0 example_sendTransaction sendConfig_def truthy_def
      zeroAmountArgs_sel io_defs isNetworkCall_def)

section \<open>Properties of balance subscriptions\<close>

subsection \<open>The event handler\<close>

text \<open>
  The handler itself filters as intended: with the subscription object it was created
  for, an event without address or for an address outside the object's set prints
  nothing, and an event for a monitored address prints one notification naming that
  address. It returns nothing else and changes nothing.
\<close>

lemma handleBalanceChangeEvent_outside:
  "\<not> truthy (ev_address data) \<or> the (ev_address data) \<notin> set (addresses subscription) \<Longrightarrow>
   handleBalanceChangeEvent sessionId data subscription = []"
  by (auto simp: handleBalanceChangeEvent_def)

lemma handleBalanceChangeEvent_monitored:
  "ev_address data = Some a \<Longrightarrow> a \<noteq> [] \<Longrightarrow> a \<in> set (addresses subscription) \<Longrightarrow>
   \<exists>n. handleBalanceChangeEvent sessionId data subscription = [n]
       \<and> n_address n = a \<and> n_session n = sessionId"
  by (simp add: handleBalanceChangeEvent_def truthy_def)

subsection \<open>Registering and removing listeners\<close>

lemma sdkOff_listeners:
  "eventListeners (sdkOff srv sid e l) sid' e' =
     (if sid' = sid \<and> e' = e then removeAll l (eventListeners srv sid e)
      else eventListeners srv sid' e')"
  by (simp add: sdkOff_def)

lemma sdkOff_other:
  "subscriptionInstances (sdkOff srv sid e l) = subscriptionInstances srv"
  "subscriptionObjects (sdkOff srv sid e l) = subscriptionObjects srv"
  "sdkInstances (sdkOff srv sid e l) = sdkInstances srv"
  by (simp_all add: sdkOff_def)

lemma sdkOn_listeners:
  "eventListeners (sdkOn srv sid e l) sid' e' =
     (if sid' = sid \<and> e' = e then setAdd (eventListeners srv sid e) l
      else eventListeners srv sid' e')"
  by (simp add: sdkOn_def)

lemma sdkOn_other:
  "subscriptionInstances (sdkOn srv sid e l) = subscriptionInstances srv"
  "subscriptionObjects (sdkOn srv sid e l) = subscriptionObjects srv"
  "sdkInstances (sdkOn srv sid e l) = sdkInstances srv"
  by (simp_all add: sdkOn_def)

lemma emit_Nil:
  "(\<And>l. l \<in> set (eventListeners srv sid e) \<Longrightarrow> runListener srv data l = []) \<Longrightarrow>
   emit srv sid e data = []"
  by (simp add: emit_def)

text \<open>
  A first subscription on an SDK without listeners: each of the three events then reaches
  exactly the handler of the session's subscription.
\<close>

lemma handleSubscribeBalance_first:
  assumes "handleSubscribeBalance srv args t = (srv', t', Inr resp)"
    and "\<forall>e. eventListeners srv (defaultSessionId (sub_sessionId args)) e = []"
    and "e \<in> {''transaction:incoming'', ''transaction:spent'', ''balance:changed''}"
  shows "\<exists>ref. subscriptionInstances srv' (defaultSessionId (sub_sessionId args)) = Some ref
        \<and> emit srv' (defaultSessionId (sub_sessionId args)) e data
            = handleBalanceChangeEvent (defaultSessionId (sub_sessionId args)) data
                (subscriptionObjects srv' ! ref)"
  using assms
  by (auto simp: handleSubscribeBalance_def Let_def sdkOn_listeners sdkOn_other emit_def
      runListener_def setAdd_def
      split: option.splits if_splits sum.splits prod.splits)


text \<open>
  If the closure of the session's subscription is the only listener, an address that a
  completed unsubscribe call has removed yields no notification when its event is
  replayed.
\<close>

lemma handleUnsubscribeBalance_replay:
  assumes sub: "subscriptionInstances srv (defaultSessionId sid) = Some ref"
    and ref: "ref < length (subscriptionObjects srv)"
    and only: "set (eventListeners srv (defaultSessionId sid) e)
                 \<subseteq> {Listener (defaultSessionId sid) ref}"
    and run: "handleUnsubscribeBalance srv sid addrs t
                = (srv', t', Inr (Unsubscribed removed n))"
    and a: "ev_address data = Some a" "a \<in> set removed"
  shows "emit srv' (defaultSessionId sid) e data = []"
proof (rule emit_Nil)
  fix l
  assume l: "l \<in> set (eventListeners srv' (defaultSessionId sid) e)"
  from run sub have ls: "set (eventListeners srv' (defaultSessionId sid) e)
      \<subseteq> set (eventListeners srv (defaultSessionId sid) e)"
    by (auto simp: handleUnsubscribeBalance_def Let_def sdkOff_listeners sdkOff_other
        split: option.splits if_splits sum.splits)
  with l only have l': "l = Listener (defaultSessionId sid) ref" by auto
  from run sub ref a have "a \<notin> set (addresses (subscriptionObjects srv' ! ref))"
    by (auto simp: handleUnsubscribeBalance_def Let_def sdkOff_listeners sdkOff_other
        split: option.splits if_splits sum.splits)
  with a(1) show "runListener srv' data l = []"
    by (simp add: l' runListener_def handleBalanceChangeEvent_def)
qed

text \<open>
  A completed unsubscribe call that leaves no address removes the subscription's closure
  from the three events and deletes the session's entry; and with no entry the call
  changes nothing and returns normally.
\<close>

lemma handleUnsubscribeBalance_last_address:
  assumes "subscriptionInstances srv (defaultSessionId sid) = Some ref"
    and "ref < length (subscriptionObjects srv)"
    and "eventListener (subscriptionObjects srv ! ref) = Some l"
    and "handleUnsubscribeBalance srv sid addrs t = (srv', t', Inr (Unsubscribed removed 0))"
  shows "subscriptionInstances srv' (defaultSessionId sid) = None
       \<and> l \<notin> set (eventListeners srv' (defaultSessionId sid) ''transaction:incoming'')
       \<and> l \<notin> set (eventListeners srv' (defaultSessionId sid) ''transaction:spent'')
       \<and> l \<notin> set (eventListeners srv' (defaultSessionId sid) ''balance:changed'')
       \<and> addresses (subscriptionObjects srv' ! ref) = []"
  using assms
  by (auto simp: handleUnsubscribeBalance_def Let_def sdkOff_listeners sdkOff_other
      split: option.splits if_splits sum.splits)

lemma handleUnsubscribeBalance_no_subscription:
  "sdkInstances srv (defaultSessionId sid) = Some sdk \<Longrightarrow>
   subscriptionInstances srv (defaultSessionId sid) = None \<Longrightarrow>
   handleUnsubscribeBalance srv sid addrs t = (srv, t, Inr NoActiveSubscription)"
  by (simp add: handleUnsubscribeBalance_def)

subsection \<open>Subscribing twice\<close>

lemmas subs_defs = handleSubscribeBalance_def handleUnsubscribeBalance_def connectedServer_def
  subscribeTo_def defaultSessionId_def exampleSDK_def sdkOn_def sdkOff_def setAdd_def
  newSet_def getBalance_def io_defs

lemma single_subscription_example:
  "emit subscribedToA ''default'' ''transaction:incoming'' (incomingFor ''addrC'') = []"
  "emit subscribedToA ''default'' ''transaction:incoming'' (incomingFor ''addrA'')
     = [\<lparr> n_session = ''default'', n_address = ''addrA'', n_event = ''unknown'',
           n_transaction = Some ''t1'', n_amount = Some 100 \<rparr>]"
  by (simp_all add: emit_def runListener_def handleBalanceChangeEvent_def incomingFor_def
      truthy_def subscribedToA_def subs_defs Let_def)

text \<open>
  The calls a subscription makes: the balance and the entries of each address, then the
  subscription itself.
\<close>

lemma single_subscription_log:
  "snd (handleSubscribeBalance connectedServer (subscribeTo [''addrA'']) [])
     = ([GetBalanceByAddress ''addrA'', GetUtxosByAddresses ''addrA'',
         SubscribeUtxosChanged [''addrA'']],
        Inr (Subscribed [''addrA'']))"
  by (simp add: subs_defs Let_def)

text \<open>
  Claim C7 speaks of the session's currently monitored set. \<^verbatim>\<open>handleSubscribeBalance\<close>
  does not look for a subscription the session already has: a second call registers a
  second closure and overwrites the map entry, and the first closure stays registered
  with its own object. After subscribing to \<open>addrA\<close> and then to \<open>addrB\<close> the session
  monitors \<open>addrB\<close> only, both closures listen, and an incoming event for \<open>addrA\<close>
  still prints a notification.
\<close>

theorem stale_listener_still_notifies:
  "subscriptionInstances resubscribedToB ''default'' = Some 1
   \<and> addresses (subscriptionObjects resubscribedToB ! 1) = [''addrB'']
   \<and> eventListeners resubscribedToB ''default'' ''transaction:incoming''
       = [Listener ''default'' 0, Listener ''default'' 1]
   \<and> emit resubscribedToB ''default'' ''transaction:incoming'' (incomingFor ''addrA'')
       = [\<lparr> n_session = ''default'', n_address = ''addrA'', n_event = ''unknown'',
             n_transaction = Some ''t1'', n_amount = Some 100 \<rparr>]"
  by (simp add: emit_def runListener_def handleBalanceChangeEvent_def incomingFor_def
      truthy_def resubscribedToB_def subscribedToA_def subs_defs Let_def)

subsection \<open>An unsubscribe call that the node rejects\<close>

text \<open>
  Claim C8 wants no listener left for an empty set. The addresses are deleted before the
  SDK call and the clean-up comes after it, so when the node rejects the call the handler
  throws in between: the set is empty, the closure is still registered for all three
  events and the session's entry is still there. A further call then finds no address to
  remove and returns without cleaning up.
\<close>

theorem failed_unsubscribe_leaves_listener:
  "handleUnsubscribeBalance nodeUnreachable None (Some [''addrA'']) []
     = (afterFailedUnsubscribe, [UnsubscribeUtxosChanged [''addrA'']],
        Inl (InternalError ''Failed to unsubscribe'' (EngineFailure ''connection closed'')))
   \<and> addresses (subscriptionObjects afterFailedUnsubscribe ! 0) = []
   \<and> subscriptionInstances afterFailedUnsubscribe ''default'' = Some 0
   \<and> eventListeners afterFailedUnsubscribe ''default'' ''transaction:incoming''
       = [Listener ''default'' 0]
   \<and> eventListeners afterFailedUnsubscribe ''default'' ''transaction:spent''
       = [Listener ''default'' 0]
   \<and> eventListeners afterFailedUnsubscribe ''default'' ''balance:changed''
       = [Listener ''default'' 0]
   \<and> handleUnsubscribeBalance afterFailedUnsubscribe None None []
       = (afterFailedUnsubscribe, [], Inr NoMatchingAddresses)"
  by (simp add: afterFailedUnsubscribe_def nodeUnreachable_def subscribedToA_def subs_defs
      Let_def)

end
